theory Spec2Isabelle
  imports Complex_Main "HOL-Library.Log_Nat"
begin

section \<open>Numbers of the source language\<close>

text \<open>
  Every \<^verbatim>\<open>number\<close> of the source is an IEEE binary64 value. A finite binary64 value
  is a rational, so finite numbers are modelled in \<^typ>\<open>rat\<close> and every operation whose
  exact result need not be representable is followed by the rounding \<open>fl\<close>: round to
  nearest with 53 significant bits, ties to the even significand. The exponent range is
  not bounded in the model (no overflow to infinity, no subnormal numbers); the
  magnitudes that occur in the program are far inside the range of binary64. Signed
  zeros are not distinguished. Where the source works on small integers only (counters,
  deductions from 100, millisecond timestamps) the model uses \<^typ>\<open>int\<close> or \<^typ>\<open>nat\<close>.
\<close>

definition ilog2 :: "rat \<Rightarrow> int" where
  \<comment> \<open>for \<open>0 < x\<close>: the exponent \<open>e\<close> with \<open>2 powi e \<le> x < 2 powi (e + 1)\<close>\<close>
  "ilog2 x = (if 1 \<le> x then bitlen \<lfloor>x\<rfloor> - 1 else - bitlen (\<lceil>1 / x\<rceil> - 1))"

definition round_even :: "rat \<Rightarrow> int" where
  "round_even r =
     (let f = \<lfloor>r\<rfloor>; d = r - of_int f
      in if d < 1 / 2 then f else if 1 / 2 < d then f + 1 else if even f then f else f + 1)"

definition fl :: "rat \<Rightarrow> rat" where
  "fl x = (if x = 0 then 0
           else let u = 2 powi (ilog2 \<bar>x\<bar> - 52) in of_int (round_even (x / u)) * u)"

definition fadd :: "rat \<Rightarrow> rat \<Rightarrow> rat" where
  "fadd a b = fl (a + b)"

definition fmul :: "rat \<Rightarrow> rat \<Rightarrow> rat" where
  "fmul a b = fl (a * b)"

definition fdiv :: "rat \<Rightarrow> rat \<Rightarrow> rat" where
  \<comment> \<open>the quotient of two finite numbers with a divisor that the caller has checked
      to be non-zero\<close>
  "fdiv a b = fl (a / b)"

datatype number = Num rat | NaN | PosInfinity | NegInfinity

definition js_div :: "rat \<Rightarrow> rat \<Rightarrow> number" where
  \<comment> \<open>\<^verbatim>\<open>a / b\<close> on finite operands, with nothing known about the divisor\<close>
  "js_div a b =
     (if b = 0 then (if a = 0 then NaN else if 0 < a then PosInfinity else NegInfinity)
      else Num (fl (a / b)))"

definition Math_round :: "rat \<Rightarrow> int" where
  \<comment> \<open>nearest integer, ties towards plus infinity\<close>
  "Math_round x = \<lfloor>x + 1 / 2\<rfloor>"

fun Math_round_number :: "number \<Rightarrow> number" where
  "Math_round_number (Num x) = Num (of_int (Math_round x))"
| "Math_round_number NaN = NaN"
| "Math_round_number PosInfinity = PosInfinity"
| "Math_round_number NegInfinity = NegInfinity"

fun isWellDefined :: "number \<Rightarrow> bool" where
  \<comment> \<open>a finite number: neither \<^verbatim>\<open>NaN\<close> nor an infinity\<close>
  "isWellDefined (Num x) = True"
| "isWellDefined _ = False"

function toString :: "nat \<Rightarrow> string" where
  \<comment> \<open>a non-negative integer inside a template literal\<close>
  "toString n =
     (if n < 10 then [''0123456789'' ! n]
      else toString (n div 10) @ [''0123456789'' ! (n mod 10)])"
  by pat_completeness auto
termination
  by (relation "measure id") auto

definition half_int :: "rat \<Rightarrow> bool" where
  \<comment> \<open>an integer multiple of one half\<close>
  "half_int x \<longleftrightarrow> (\<exists>k. x = of_int k / 2)"


section \<open>Shared value types\<close>

text \<open>
  The union \<^verbatim>\<open>'low' | 'medium' | 'high' | 'critical'\<close> types the severity of an audit
  finding, the risk level of a compliance gap and the severity of an app risk factor.
  An audit finding and an app risk factor have the same four fields and share the record
  \<open>AuditFinding\<close> (the optional field \<^verbatim>\<open>evidence\<close> is never written). Where two
  interfaces of the source use one field name, the later record prefixes it.
\<close>

datatype severity = low | medium | high | critical

datatype priority = low | medium | high | urgent

record AuditFinding =
  category :: string
  severity :: severity
  description :: string
  impact :: string

record AuditRecommendation =
  priority :: priority
  title :: string
  rec_description :: string
  actionItems :: "string list"
  estimatedEffort :: string

datatype exn = Error string | NotFoundException string

fun message :: "exn \<Rightarrow> string" where
  "message (Error m) = m"
| "message (NotFoundException m) = m"


section \<open>Audit check pipeline (compliance.service.ts)\<close>

datatype audit_status = compliant | non_compliant | under_review

record AuditResult =
  score :: int
  status :: audit_status
  findings :: "AuditFinding list"
  recommendations :: "AuditRecommendation list"

record CheckResult =
  check_findings :: "AuditFinding list"
  check_recommendations :: "AuditRecommendation list"
  deduction :: int

record PrivacyPolicy =
  policy_id :: string
  policy_status :: string

text \<open>
  \<^verbatim>\<open>legalBasis\<close> and \<^verbatim>\<open>retentionPeriod\<close> are tested for truthiness: a missing value
  (\<open>None\<close>), the empty string and the number zero are falsy.
\<close>

record DataCollectionPoint =
  point_id :: string
  legalBasis :: "string option"
  retentionPeriod :: "int option"

fun truthy_string :: "string option \<Rightarrow> bool" where
  "truthy_string None = False"
| "truthy_string (Some s) = (s \<noteq> [])"

fun truthy_int :: "int option \<Rightarrow> bool" where
  "truthy_int None = False"
| "truthy_int (Some n) = (n \<noteq> 0)"

text \<open>
  Each check awaits one \<^verbatim>\<open>find\<close> of a repository. The query runs in the database, so the
  model takes what the query resolved to as the argument of the check, and a query that
  rejects as an \<open>Inl\<close>. The four queries of one audit are four separate awaits;
  \<open>AuditQueries\<close> records the outcome of each. The list of policies arrives ordered by
  \<^verbatim>\<open>createdAt\<close>, newest first.
\<close>

definition checkPrivacyPolicy :: "PrivacyPolicy list \<Rightarrow> CheckResult" where
  "checkPrivacyPolicy policies =
     (case policies of
        [] \<Rightarrow>
          \<lparr>check_findings =
             [\<lparr>category = ''Privacy Policy'', severity = severity.critical,
               description = ''No privacy policy found'',
               impact = ''Legal requirement violation - GDPR Article 13/14''\<rparr>],
           check_recommendations =
             [\<lparr>priority = priority.urgent, title = ''Create Privacy Policy'',
               rec_description = ''Generate a GDPR-compliant privacy policy'',
               actionItems =
                 [''Use AI policy generator'', ''Review legal requirements'', ''Publish policy''],
               estimatedEffort = ''2-4 hours''\<rparr>],
           deduction = 30\<rparr>
      | latestPolicy # _ \<Rightarrow>
          if policy_status latestPolicy \<noteq> ''published''
          then \<lparr>check_findings =
                  [\<lparr>category = ''Privacy Policy'', severity = severity.high,
                    description = ''Privacy policy exists but is not published'',
                    impact = ''Policy not accessible to data subjects''\<rparr>],
                check_recommendations = [], deduction = 15\<rparr>
          else \<lparr>check_findings = [], check_recommendations = [], deduction = 0\<rparr>)"

definition checkDataMapping :: "DataCollectionPoint list \<Rightarrow> CheckResult" where
  "checkDataMapping dataPoints =
     (if length dataPoints = 0
      then \<lparr>check_findings =
              [\<lparr>category = ''Data Mapping'', severity = severity.high,
                description = ''No data collection points mapped'',
                impact = ''Cannot demonstrate data processing compliance''\<rparr>],
            check_recommendations =
              [\<lparr>priority = priority.high, title = ''Map Data Collection Points'',
                rec_description = ''Identify and document all personal data collection'',
                actionItems =
                  [''Audit data collection forms'', ''Document processing purposes'',
                   ''Define legal basis''],
                estimatedEffort = ''4-8 hours''\<rparr>],
            deduction = 25\<rparr>
      else \<lparr>check_findings = [], check_recommendations = [], deduction = 0\<rparr>)"

definition checkLegalBasis :: "DataCollectionPoint list \<Rightarrow> CheckResult" where
  "checkLegalBasis dataPoints =
     (let pointsWithoutBasis = filter (\<lambda>point. \<not> truthy_string (legalBasis point)) dataPoints
      in if length pointsWithoutBasis > 0
         then \<lparr>check_findings =
                 [\<lparr>category = ''Legal Basis'', severity = severity.critical,
                   description =
                     toString (length pointsWithoutBasis) @
                     '' data collection points lack legal basis'',
                   impact = ''GDPR Article 6 violation - unlawful processing''\<rparr>],
               check_recommendations = [], deduction = 20\<rparr>
         else \<lparr>check_findings = [], check_recommendations = [], deduction = 0\<rparr>)"

definition checkRetentionPolicies :: "DataCollectionPoint list \<Rightarrow> CheckResult" where
  "checkRetentionPolicies dataPoints =
     (let pointsWithoutRetention =
            filter (\<lambda>point. \<not> truthy_int (retentionPeriod point)) dataPoints
      in if length pointsWithoutRetention > 0
         then \<lparr>check_findings =
                 [\<lparr>category = ''Data Retention'', severity = severity.medium,
                   description =
                     toString (length pointsWithoutRetention) @
                     '' data points lack retention policies'',
                   impact = ''GDPR Article 5(1)(e) - storage limitation principle''\<rparr>],
               check_recommendations = [], deduction = 10\<rparr>
         else \<lparr>check_findings = [], check_recommendations = [], deduction = 0\<rparr>)"

definition determineComplianceStatus :: "int \<Rightarrow> audit_status" where
  "determineComplianceStatus sc =
     (if sc \<ge> 80 then audit_status.compliant
      else if sc \<ge> 60 then audit_status.under_review
      else audit_status.non_compliant)"

record AuditQueries =
  policyFind :: "exn + PrivacyPolicy list"
  mappingFind :: "exn + DataCollectionPoint list"
  legalFind :: "exn + DataCollectionPoint list"
  retentionFind :: "exn + DataCollectionPoint list"

definition performAuditChecks :: "AuditQueries \<Rightarrow> exn + AuditResult" where
  "performAuditChecks q =
     (case policyFind q of Inl e \<Rightarrow> Inl e | Inr policies \<Rightarrow>
      let policyCheck = checkPrivacyPolicy policies;
          findings1 = check_findings policyCheck;
          recommendations1 = check_recommendations policyCheck;
          totalScore1 = 100 - deduction policyCheck
      in case mappingFind q of Inl e \<Rightarrow> Inl e | Inr dataPoints \<Rightarrow>
      let dataCheck = checkDataMapping dataPoints;
          findings2 = findings1 @ check_findings dataCheck;
          recommendations2 = recommendations1 @ check_recommendations dataCheck;
          totalScore2 = totalScore1 - deduction dataCheck
      in case legalFind q of Inl e \<Rightarrow> Inl e | Inr dataPoints' \<Rightarrow>
      let legalCheck = checkLegalBasis dataPoints';
          findings3 = findings2 @ check_findings legalCheck;
          recommendations3 = recommendations2 @ check_recommendations legalCheck;
          totalScore3 = totalScore2 - deduction legalCheck
      in case retentionFind q of Inl e \<Rightarrow> Inl e | Inr dataPoints'' \<Rightarrow>
      let retentionCheck = checkRetentionPolicies dataPoints'';
          findings4 = findings3 @ check_findings retentionCheck;
          recommendations4 = recommendations3 @ check_recommendations retentionCheck;
          totalScore4 = totalScore3 - deduction retentionCheck;
          finalScore = max 0 (min 100 totalScore4)
      in Inr \<lparr>score = finalScore, status = determineComplianceStatus finalScore,
              findings = findings4, recommendations = recommendations4\<rparr>)"

subsection \<open>Running an audit: the audit table and the merchant's score\<close>

text \<open>
  The store holds the merchant table and the audit table. \<^verbatim>\<open>save\<close> inserts an entity
  that has no id under a fresh one and writes the id back into the entity; an entity with
  an id replaces its row. A write can reject like a read; \<open>AuditWrites\<close> records for each
  of the four writes of one run the exception it rejects with, if any, and a rejected
  write leaves the store as it is. \<open>now\<close> is the clock at completion.
\<close>

record Merchant =
  merchant_id :: string
  complianceScore :: int

record ComplianceAudit =
  audit_id :: "nat option"
  audit_merchant :: Merchant
  auditType :: string
  audit_status :: string
  riskScore :: "int option"
  audit_findings :: "AuditFinding list option"
  audit_recommendations :: "AuditRecommendation list option"
  auditData :: "(string \<times> string) list option"
  completedAt :: "int option"

record Store =
  merchants :: "string \<rightharpoonup> Merchant"
  audits :: "nat \<rightharpoonup> ComplianceAudit"
  nextAuditId :: nat

record AuditWrites =
  saveProcessing :: "exn option"
  saveCompleted :: "exn option"
  updateScore :: "exn option"
  saveFailed :: "exn option"

definition findById :: "string \<Rightarrow> Store \<Rightarrow> exn + Merchant" where
  "findById ident st =
     (case merchants st ident of
        None \<Rightarrow> Inl (NotFoundException (''Merchant with ID '' @ ident @ '' not found''))
      | Some merchant \<Rightarrow> Inr merchant)"

definition updateComplianceScore :: "exn option \<Rightarrow> string \<Rightarrow> int \<Rightarrow> Store \<Rightarrow> exn + Store" where
  "updateComplianceScore outcome merchantId sc st =
     (case outcome of
        Some e \<Rightarrow> Inl e
      | None \<Rightarrow>
          (case merchants st merchantId of
             None \<Rightarrow> Inr st
           | Some merchant \<Rightarrow>
               Inr (st\<lparr>merchants :=
                          (merchants st)(merchantId \<mapsto> merchant\<lparr>complianceScore := sc\<rparr>)\<rparr>)))"

definition auditRepository_create :: "Merchant \<Rightarrow> string \<Rightarrow> string \<Rightarrow> ComplianceAudit" where
  "auditRepository_create merchant ty st =
     \<lparr>audit_id = None, audit_merchant = merchant, auditType = ty, audit_status = st,
      riskScore = None, audit_findings = None, audit_recommendations = None,
      auditData = None, completedAt = None\<rparr>"

definition auditRepository_save ::
  "exn option \<Rightarrow> ComplianceAudit \<Rightarrow> Store \<Rightarrow> exn + ComplianceAudit \<times> Store" where
  "auditRepository_save outcome audit st =
     (case outcome of
        Some e \<Rightarrow> Inl e
      | None \<Rightarrow>
          (case audit_id audit of
             None \<Rightarrow>
               let audit' = audit\<lparr>audit_id := Some (nextAuditId st)\<rparr>
               in Inr (audit', st\<lparr>audits := (audits st)(nextAuditId st \<mapsto> audit'),
                                   nextAuditId := nextAuditId st + 1\<rparr>)
           | Some i \<Rightarrow> Inr (audit, st\<lparr>audits := (audits st)(i \<mapsto> audit)\<rparr>)))"

text \<open>
  The \<^verbatim>\<open>try\<close> block of \<^verbatim>\<open>runComplianceAudit\<close>. It returns the audit and the store, or the
  exception together with the audit object and the store as they are when it is thrown.
\<close>

definition runComplianceAudit_try ::
  "string \<Rightarrow> int \<Rightarrow> AuditQueries \<Rightarrow> AuditWrites \<Rightarrow> ComplianceAudit \<Rightarrow> Store \<Rightarrow>
   (exn \<times> ComplianceAudit \<times> Store) + (ComplianceAudit \<times> Store)" where
  "runComplianceAudit_try merchantId now q w audit st1 =
     (case performAuditChecks q of
        Inl error \<Rightarrow> Inl (error, audit, st1)
      | Inr auditResult \<Rightarrow>
          let audit' = audit\<lparr>audit_status := ''completed'',
                              riskScore := Some (100 - score auditResult),
                              audit_findings := Some (findings auditResult),
                              audit_recommendations := Some (recommendations auditResult),
                              completedAt := Some now\<rparr>
          in case auditRepository_save (saveCompleted w) audit' st1 of
               Inl error \<Rightarrow> Inl (error, audit', st1)
             | Inr (audit'', st2) \<Rightarrow>
                 (case updateComplianceScore (updateScore w) merchantId (score auditResult) st2 of
                    Inl error \<Rightarrow> Inl (error, audit'', st2)
                  | Inr st3 \<Rightarrow> Inr (audit'', st3)))"

definition runComplianceAudit ::
  "string \<Rightarrow> int \<Rightarrow> AuditQueries \<Rightarrow> AuditWrites \<Rightarrow> Store \<Rightarrow>
   (exn + ComplianceAudit) \<times> Store" where
  "runComplianceAudit merchantId now q w st =
     (case findById merchantId st of
        Inl e \<Rightarrow> (Inl e, st)
      | Inr merchant \<Rightarrow>
          (case auditRepository_save (saveProcessing w)
                  (auditRepository_create merchant ''comprehensive'' ''processing'') st of
             Inl e \<Rightarrow> (Inl e, st)
           | Inr (audit, st1) \<Rightarrow>
               (case runComplianceAudit_try merchantId now q w audit st1 of
                  Inr (audit', st') \<Rightarrow> (Inr audit', st')
                | Inl (error, audit', st') \<Rightarrow>
                    let audit'' = audit'\<lparr>audit_status := ''failed'',
                                          auditData := Some [(''error'', message error)]\<rparr>
                    in (case auditRepository_save (saveFailed w) audit'' st' of
                          Inl e \<Rightarrow> (Inl e, st')
                        | Inr (_, st'') \<Rightarrow> (Inl error, st'')))))"

section \<open>Regulatory gap analysis (regulatory-knowledge.service.ts)\<close>

datatype RegulationType = GDPR | CCPA | PIPEDA | UK_GDPR | LGPD | PDPA

datatype RuleCategory =
    DATA_COLLECTION | CONSENT_MANAGEMENT | DATA_RETENTION | DATA_SUBJECT_RIGHTS
  | CROSS_BORDER_TRANSFER | BREACH_NOTIFICATION | PRIVACY_POLICY | COOKIE_MANAGEMENT

fun RuleCategory_value :: "RuleCategory \<Rightarrow> string" where
  "RuleCategory_value DATA_COLLECTION = ''data_collection''"
| "RuleCategory_value CONSENT_MANAGEMENT = ''consent_management''"
| "RuleCategory_value DATA_RETENTION = ''data_retention''"
| "RuleCategory_value DATA_SUBJECT_RIGHTS = ''data_subject_rights''"
| "RuleCategory_value CROSS_BORDER_TRANSFER = ''cross_border_transfer''"
| "RuleCategory_value BREACH_NOTIFICATION = ''breach_notification''"
| "RuleCategory_value PRIVACY_POLICY = ''privacy_policy''"
| "RuleCategory_value COOKIE_MANAGEMENT = ''cookie_management''"

datatype ComplianceRequirement = MANDATORY | RECOMMENDED | OPTIONAL

text \<open>
  Of a rule the analysis reads the category, the title and the requirement level; the
  other columns of the entity are left out.
\<close>

record RegulatoryRule =
  rule_id :: string
  regulation :: RegulationType
  rule_category :: RuleCategory
  rule_title :: string
  requirement :: ComplianceRequirement

datatype gap_status = compliant | partial | non_compliant

record MerchantData =
  businessType :: string
  jurisdiction :: string
  dataTypes :: "string list"
  currentPolicies :: "string list"
  implementedControls :: "string list"

record ComplianceGap =
  rule :: RegulatoryRule
  currentStatus :: gap_status
  riskLevel :: severity
  actionRequired :: string
  deadline :: "int option"

record ComplianceGapAnalysis =
  gap_merchantId :: string
  applicableRules :: "RegulatoryRule list"
  gaps :: "ComplianceGap list"
  overallComplianceScore :: int
  priorityActions :: "string list"

definition toLowerCase :: "string \<Rightarrow> string" where
  \<comment> \<open>on ASCII letters\<close>
  "toLowerCase s =
     map (\<lambda>c. let n = (of_char c :: nat) in if 65 \<le> n \<and> n \<le> 90 then char_of (n + 32) else c) s"

definition calculateDeadline :: "int \<Rightarrow> RegulatoryRule \<Rightarrow> gap_status \<Rightarrow> int option" where
  "calculateDeadline now rl st =
     (if st = gap_status.compliant then None
      else let daysToAdd =
                 (if requirement rl = MANDATORY
                  then (if st = gap_status.non_compliant then 15 else 30)
                  else 60)
           in Some (now + daysToAdd * 24 * 60 * 60 * 1000))"

text \<open>
  The first half of \<^verbatim>\<open>analyzeRuleCompliance\<close>, the switch on the category of the rule:
  the status, the risk level and the action before the requirement level is looked at.
\<close>

definition analyzeRuleCompliance_base ::
  "RegulatoryRule \<Rightarrow> MerchantData \<Rightarrow> gap_status \<times> severity \<times> string" where
  "analyzeRuleCompliance_base rl merchantData =
     (case rule_category rl of
        PRIVACY_POLICY \<Rightarrow>
          if ''privacy_policy'' \<in> set (currentPolicies merchantData)
          then (gap_status.compliant, severity.low,
                ''Review and update privacy policy regularly'')
          else (gap_status.non_compliant, severity.critical,
                ''Create and publish privacy policy immediately'')
      | CONSENT_MANAGEMENT \<Rightarrow>
          if ''consent_management'' \<in> set (implementedControls merchantData)
          then (gap_status.compliant, severity.low, ''Implement '' @ rule_title rl)
          else (gap_status.non_compliant, severity.high,
                ''Implement consent management system'')
      | DATA_SUBJECT_RIGHTS \<Rightarrow>
          if ''dsar_workflow'' \<in> set (implementedControls merchantData)
          then (gap_status.partial, severity.medium,
                ''Enhance data subject rights workflow'')
          else (gap_status.non_compliant, severity.high,
                ''Implement data subject rights management'')
      | COOKIE_MANAGEMENT \<Rightarrow>
          if ''cookie_consent'' \<in> set (implementedControls merchantData)
          then (gap_status.compliant, severity.low, ''Implement '' @ rule_title rl)
          else (gap_status.non_compliant, severity.medium,
                ''Implement cookie consent management'')
      | _ \<Rightarrow>
          if toLowerCase (RuleCategory_value (rule_category rl))
               \<in> set (implementedControls merchantData)
          then (gap_status.partial, severity.medium, ''Implement '' @ rule_title rl)
          else (gap_status.non_compliant, severity.medium, ''Implement '' @ rule_title rl))"

definition analyzeRuleCompliance ::
  "int \<Rightarrow> RegulatoryRule \<Rightarrow> MerchantData \<Rightarrow> ComplianceGap" where
  "analyzeRuleCompliance now rl merchantData =
     (let (st, risk, action) = analyzeRuleCompliance_base rl merchantData;
          risk' =
            (if requirement rl = MANDATORY
             then (if st = gap_status.non_compliant
                   then (if risk = severity.low then severity.medium
                         else if risk = severity.medium then severity.high
                         else severity.critical)
                   else risk)
             else risk)
      in \<lparr>rule = rl, currentStatus = st, riskLevel = risk', actionRequired = action,
          deadline = calculateDeadline now rl st\<rparr>)"

fun getRuleWeight :: "ComplianceRequirement \<Rightarrow> rat" where
  "getRuleWeight MANDATORY = 10"
| "getRuleWeight RECOMMENDED = 5"
| "getRuleWeight OPTIONAL = 1"

fun getRiskScore :: "severity \<Rightarrow> int" where
  "getRiskScore severity.critical = 4"
| "getRiskScore severity.high = 3"
| "getRiskScore severity.medium = 2"
| "getRiskScore severity.low = 1"

text \<open>
  \<^verbatim>\<open>Array.prototype.sort\<close> with a comparator is a stable sort: elements that the
  comparator does not order keep their relative position. The model inserts the elements
  from the right, each in front of the first element that it does not have to follow.
\<close>

fun insert_sorted :: "('a \<Rightarrow> 'a \<Rightarrow> int) \<Rightarrow> 'a \<Rightarrow> 'a list \<Rightarrow> 'a list" where
  "insert_sorted cmp x [] = [x]"
| "insert_sorted cmp x (y # ys) =
     (if cmp x y \<le> 0 then x # y # ys else y # insert_sorted cmp x ys)"

definition Array_sort :: "('a \<Rightarrow> 'a \<Rightarrow> int) \<Rightarrow> 'a list \<Rightarrow> 'a list" where
  "Array_sort cmp xs = foldr (insert_sorted cmp) xs []"

text \<open>
  The loop over the applicable rules, with its three accumulators. The list of
  applicable rules is what the query \<^verbatim>\<open>findApplicableRules\<close> resolved to.
\<close>

fun performGapAnalysis_loop ::
  "int \<Rightarrow> MerchantData \<Rightarrow> RegulatoryRule list \<Rightarrow> ComplianceGap list \<times> rat \<times> rat \<Rightarrow>
   ComplianceGap list \<times> rat \<times> rat" where
  "performGapAnalysis_loop now merchantData [] acc = acc"
| "performGapAnalysis_loop now merchantData (rl # rules) (gs, totalScore, maxScore) =
     (let analysis = analyzeRuleCompliance now rl merchantData;
          maxScore' = fadd maxScore (getRuleWeight (requirement rl));
          totalScore' =
            (if currentStatus analysis = gap_status.compliant
             then fadd totalScore (getRuleWeight (requirement rl))
             else if currentStatus analysis = gap_status.partial
             then fadd totalScore (fmul (getRuleWeight (requirement rl)) (fl (1 / 2)))
             else totalScore)
      in performGapAnalysis_loop now merchantData rules (gs @ [analysis], totalScore', maxScore'))"

definition priorityGaps :: "ComplianceGap list \<Rightarrow> ComplianceGap list" where
  \<comment> \<open>the gaps whose actions become the priority actions: filter, sort, slice\<close>
  "priorityGaps gs =
     take 5
       (Array_sort (\<lambda>a b. getRiskScore (riskLevel b) - getRiskScore (riskLevel a))
          (filter (\<lambda>gap. riskLevel gap = severity.critical \<or> riskLevel gap = severity.high) gs))"

definition performGapAnalysis ::
  "int \<Rightarrow> string \<Rightarrow> MerchantData \<Rightarrow> RegulatoryRule list \<Rightarrow> ComplianceGapAnalysis" where
  "performGapAnalysis now merchantId merchantData rules =
     (let (gs, totalScore, maxScore) =
            performGapAnalysis_loop now merchantData rules ([], 0, 0);
          overall =
            (if maxScore > 0 then Math_round (fmul (fdiv totalScore maxScore) 100) else 100)
      in \<lparr>gap_merchantId = merchantId, applicableRules = rules, gaps = gs,
          overallComplianceScore = overall,
          priorityActions = map actionRequired (priorityGaps gs)\<rparr>)"

text \<open>
  The credit of one rule towards the total score, in the words of the specification:
  the weight of the rule when the merchant is compliant, half of it when partially
  compliant, nothing otherwise.
\<close>

definition gap_credit :: "int \<Rightarrow> MerchantData \<Rightarrow> RegulatoryRule \<Rightarrow> rat" where
  "gap_credit now md r =
     (case currentStatus (analyzeRuleCompliance now r md) of
        gap_status.compliant \<Rightarrow> getRuleWeight (requirement r)
      | gap_status.partial \<Rightarrow> getRuleWeight (requirement r) * (1 / 2)
      | gap_status.non_compliant \<Rightarrow> 0)"

section \<open>Third-party app risk (third-party-app-risk.service.ts)\<close>

datatype RiskLevel = LOW | MEDIUM | HIGH | CRITICAL

datatype DataAccessLevel = READ_ONLY | READ_WRITE | FULL_ACCESS | ADMIN

text \<open>
  Of an app the risk analysis reads the developer, the permission scopes, the data
  access level, the stored risk score and the risk factors; the nullable columns and
  the optional fields are options.
\<close>

record AppPermissions =
  scopes :: "string list"

record AppRiskFactors =
  app_dataTypes :: "string list option"
  encryptionStatus :: string
  privacyPolicyUrl :: "string option"
  dataRetentionPeriod :: "string option"

record ComplianceIssue =
  issue_severity :: severity
  issue_category :: string
  issue_description :: string
  issue_recommendation :: string
  resolved :: bool

record ThirdPartyApp =
  appId :: string
  appName :: string
  developer :: "string option"
  permissions :: "AppPermissions option"
  dataAccessLevel :: DataAccessLevel
  app_riskLevel :: RiskLevel
  app_riskScore :: int
  riskFactors :: "AppRiskFactors option"
  complianceIssues :: "ComplianceIssue list option"
  lastRiskAssessment :: "int option"

record AppComplianceGap =
  gap_regulation :: string
  gap_requirement :: string
  gap_description :: string
  gap_remediation :: string

record AppRiskAnalysis =
  analysis_appId :: string
  analysis_appName :: string
  analysis_riskLevel :: RiskLevel
  analysis_riskScore :: int
  analysis_riskFactors :: "AuditFinding list"
  analysis_recommendations :: "string list"
  analysis_complianceGaps :: "AppComplianceGap list"

record RiskPart =
  factors :: "AuditFinding list"
  part_score :: rat

fun isPrefixOf :: "string \<Rightarrow> string \<Rightarrow> bool" where
  "isPrefixOf [] s = True"
| "isPrefixOf (c # p) [] = False"
| "isPrefixOf (c # p) (d # s) = (c = d \<and> isPrefixOf p s)"

fun String_includes :: "string \<Rightarrow> string \<Rightarrow> bool" where
  \<comment> \<open>\<^verbatim>\<open>s.includes(pattern)\<close>: the pattern occurs in \<open>s\<close> as a substring\<close>
  "String_includes [] pattern = (pattern = [])"
| "String_includes (c # s) pattern = (isPrefixOf pattern (c # s) \<or> String_includes s pattern)"

definition highRiskPermissions :: "string list" where
  "highRiskPermissions =
     [''read_customers'', ''write_customers'', ''read_orders'', ''write_orders'',
      ''read_all_orders'', ''write_all_orders'', ''read_users'', ''write_users'',
      ''read_script_tags'', ''write_script_tags'']"

text \<open>
  The sub-scores are sums of a few small integers, which binary64 adds exactly; the
  weighted sum of \<^verbatim>\<open>analyzeAppRisk\<close> multiplies them with the weights, which are the
  binary64 values nearest to the decimal literals, and rounds each product and each sum.
\<close>

definition analyzeDataAccessRisk :: "ThirdPartyApp \<Rightarrow> RiskPart" where
  "analyzeDataAccessRisk app =
     (let (factors1, score1) =
            (if dataAccessLevel app = FULL_ACCESS
             then ([\<lparr>category = ''Data Access'', severity = severity.critical,
                     description = ''App has full access to store data'',
                     impact = ''Complete data exposure risk''\<rparr>], 80)
             else if dataAccessLevel app = READ_WRITE
             then ([\<lparr>category = ''Data Access'', severity = severity.high,
                     description = ''App can read and modify store data'',
                     impact = ''Data modification and exposure risk''\<rparr>], 60)
             else ([], 0));
          sensitiveData =
            (case riskFactors app of
               None \<Rightarrow> None
             | Some rf \<Rightarrow>
                 (case app_dataTypes rf of
                    None \<Rightarrow> None
                  | Some types \<Rightarrow>
                      Some (filter (\<lambda>ty. ty \<in> set [''personal_data'', ''payment_information''])
                              types)))
      in case sensitiveData of
           Some (x # xs) \<Rightarrow>
             \<lparr>factors = factors1 @
                [\<lparr>category = ''Sensitive Data'', severity = severity.high,
                  description = ''App accesses sensitive personal or payment data'',
                  impact = ''Privacy and security compliance risk''\<rparr>],
              part_score = score1 + 40\<rparr>
         | _ \<Rightarrow> \<lparr>factors = factors1, part_score = score1\<rparr>)"

definition analyzePermissionRisk :: "ThirdPartyApp \<Rightarrow> RiskPart" where
  "analyzePermissionRisk app =
     (let scps = (case permissions app of None \<Rightarrow> [] | Some p \<Rightarrow> scopes p);
          highRiskCount =
            length (filter (\<lambda>scope. list_ex (\<lambda>pattern. String_includes scope pattern)
                                      highRiskPermissions) scps)
      in if highRiskCount > 3
         then \<lparr>factors =
                 [\<lparr>category = ''Permissions'', severity = severity.high,
                   description = ''App requests excessive high-risk permissions'',
                   impact = ''Broad access to sensitive operations''\<rparr>],
               part_score = 70\<rparr>
         else if highRiskCount > 0
         then \<lparr>factors =
                 [\<lparr>category = ''Permissions'', severity = severity.medium,
                   description = ''App requests some high-risk permissions'',
                   impact = ''Limited access to sensitive operations''\<rparr>],
               part_score = 40\<rparr>
         else \<lparr>factors = [], part_score = 0\<rparr>)"

definition lacksPrivacyPolicyUrl :: "ThirdPartyApp \<Rightarrow> bool" where
  \<comment> \<open>\<^verbatim>\<open>!app.riskFactors?.privacyPolicyUrl\<close>\<close>
  "lacksPrivacyPolicyUrl app =
     (case riskFactors app of
        None \<Rightarrow> True
      | Some rf \<Rightarrow> \<not> truthy_string (privacyPolicyUrl rf))"

definition analyzeComplianceRisk :: "ThirdPartyApp \<Rightarrow> RiskPart" where
  "analyzeComplianceRisk app =
     (let (factors1, score1) =
            (if lacksPrivacyPolicyUrl app
             then ([\<lparr>category = ''Compliance'', severity = severity.high,
                     description = ''App lacks privacy policy'',
                     impact = ''GDPR compliance risk''\<rparr>], 60)
             else ([], 0))
      in if (case riskFactors app of
               None \<Rightarrow> False
             | Some rf \<Rightarrow> dataRetentionPeriod rf = Some ''unknown'')
         then \<lparr>factors = factors1 @
                 [\<lparr>category = ''Data Retention'', severity = severity.medium,
                   description = ''Data retention period not specified'',
                   impact = ''Data minimization compliance risk''\<rparr>],
               part_score = score1 + 30\<rparr>
         else \<lparr>factors = factors1, part_score = score1\<rparr>)"

definition analyzeSecurityRisk :: "ThirdPartyApp \<Rightarrow> RiskPart" where
  "analyzeSecurityRisk app =
     (if (case riskFactors app of
            None \<Rightarrow> False
          | Some rf \<Rightarrow> encryptionStatus rf = ''unknown'')
      then \<lparr>factors =
              [\<lparr>category = ''Security'', severity = severity.medium,
                description = ''Encryption status unknown'',
                impact = ''Data security risk''\<rparr>],
            part_score = 30\<rparr>
      else \<lparr>factors = [], part_score = 0\<rparr>)"

definition analyzeReputationRisk :: "ThirdPartyApp \<Rightarrow> RiskPart" where
  "analyzeReputationRisk app =
     (if \<not> truthy_string (developer app) \<or> developer app = Some ''Unknown Developer''
      then \<lparr>factors =
              [\<lparr>category = ''Developer Reputation'', severity = severity.medium,
                description = ''Unknown or unverified developer'',
                impact = ''Trust and reliability concerns''\<rparr>],
            part_score = 40\<rparr>
      else \<lparr>factors = [], part_score = 0\<rparr>)"

definition calculateRiskLevel :: "int \<Rightarrow> RiskLevel" where
  "calculateRiskLevel sc =
     (if sc \<ge> 80 then RiskLevel.CRITICAL
      else if sc \<ge> 60 then RiskLevel.HIGH
      else if sc \<ge> 40 then RiskLevel.MEDIUM
      else RiskLevel.LOW)"

definition generateAppRecommendations :: "ThirdPartyApp \<Rightarrow> AuditFinding list \<Rightarrow> string list" where
  "generateAppRecommendations app fs =
     (if list_ex (\<lambda>f. category f = ''Data Access'') fs
      then [''Review and minimize app data access permissions''] else []) @
     (if lacksPrivacyPolicyUrl app
      then [''Request privacy policy from app developer''] else []) @
     (if app_riskScore app > 70
      then [''Consider removing or replacing this high-risk app''] else [])"

definition identifyAppComplianceGaps :: "ThirdPartyApp \<Rightarrow> AppComplianceGap list" where
  "identifyAppComplianceGaps app =
     (if lacksPrivacyPolicyUrl app
      then [\<lparr>gap_regulation = ''GDPR'',
             gap_requirement = ''Article 28 - Processor agreements'',
             gap_description = ''Third-party processor lacks privacy policy'',
             gap_remediation = ''Obtain data processing agreement and privacy policy''\<rparr>]
      else [])"

record RiskWeights =
  w_dataAccess :: rat
  w_permissions :: rat
  w_compliance :: rat
  w_security :: rat
  w_reputation :: rat

definition riskWeights :: RiskWeights where
  \<comment> \<open>the literals 0.3, 0.25, 0.2, 0.15 and 0.1\<close>
  "riskWeights =
     \<lparr>w_dataAccess = fl (3 / 10), w_permissions = fl (25 / 100), w_compliance = fl (2 / 10),
      w_security = fl (15 / 100), w_reputation = fl (1 / 10)\<rparr>"

definition weightedRiskScore :: "ThirdPartyApp \<Rightarrow> rat" where
  \<comment> \<open>the variable \<^verbatim>\<open>riskScore\<close> of \<^verbatim>\<open>analyzeAppRisk\<close> after the five additions\<close>
  "weightedRiskScore app =
     (let riskScore1 =
            fadd 0 (fmul (part_score (analyzeDataAccessRisk app)) (w_dataAccess riskWeights));
          riskScore2 =
            fadd riskScore1
              (fmul (part_score (analyzePermissionRisk app)) (w_permissions riskWeights));
          riskScore3 =
            fadd riskScore2
              (fmul (part_score (analyzeComplianceRisk app)) (w_compliance riskWeights));
          riskScore4 =
            fadd riskScore3
              (fmul (part_score (analyzeSecurityRisk app)) (w_security riskWeights))
      in fadd riskScore4
           (fmul (part_score (analyzeReputationRisk app)) (w_reputation riskWeights)))"

text \<open>
  The weighted sum of the specification, with the decimal weights taken exactly.
\<close>

definition exactWeightedSum :: "ThirdPartyApp \<Rightarrow> rat" where
  "exactWeightedSum app =
     part_score (analyzeDataAccessRisk app) * (30 / 100) +
     part_score (analyzePermissionRisk app) * (25 / 100) +
     part_score (analyzeComplianceRisk app) * (20 / 100) +
     part_score (analyzeSecurityRisk app) * (15 / 100) +
     part_score (analyzeReputationRisk app) * (10 / 100)"

definition analyzeAppRisk :: "ThirdPartyApp \<Rightarrow> AppRiskAnalysis" where
  "analyzeAppRisk app =
     (let riskFactors' =
            factors (analyzeDataAccessRisk app) @ factors (analyzePermissionRisk app) @
            factors (analyzeComplianceRisk app) @ factors (analyzeSecurityRisk app) @
            factors (analyzeReputationRisk app);
          finalRiskScore = min 100 (max 0 (Math_round (weightedRiskScore app)))
      in \<lparr>analysis_appId = appId app, analysis_appName = appName app,
          analysis_riskLevel = calculateRiskLevel finalRiskScore,
          analysis_riskScore = finalRiskScore,
          analysis_riskFactors = riskFactors',
          analysis_recommendations = generateAppRecommendations app riskFactors',
          analysis_complianceGaps = identifyAppComplianceGaps app\<rparr>)"

subsection \<open>The assessment across the apps of a merchant\<close>

record RiskBreakdown =
  rb_dataAccess :: number
  rb_permissions :: number
  rb_compliance :: number
  rb_security :: number
  rb_reputation :: number

record AssessmentRecommendation =
  ar_priority :: priority
  ar_category :: string
  ar_description :: string
  ar_actionItems :: "string list"
  ar_affectedApps :: "string list"

record AssessmentGap =
  ag_regulation :: string
  ag_requirement :: string
  ag_affectedApps :: "string list"
  ag_riskLevel :: RiskLevel
  ag_remediation :: string

record AppRiskAssessment =
  assessment_merchantId :: string
  totalApps :: nat
  highRiskApps :: nat
  mediumRiskApps :: nat
  lowRiskApps :: nat
  overallRiskScore :: int
  riskBreakdown :: RiskBreakdown
  assessment_recommendations :: "AssessmentRecommendation list"
  assessment_complianceGaps :: "AssessmentGap list"

definition generateRecommendations :: "AppRiskAnalysis list \<Rightarrow> AssessmentRecommendation list" where
  "generateRecommendations analyses =
     (let highRisk = filter (\<lambda>a. analysis_riskScore a > 70) analyses
      in if length highRisk > 0
         then [\<lparr>ar_priority = priority.urgent, ar_category = ''High Risk Apps'',
                ar_description = toString (length highRisk) @ '' apps pose high security risks'',
                ar_actionItems =
                  [''Review high-risk app permissions'', ''Consider removing unnecessary apps'',
                   ''Implement additional monitoring''],
                ar_affectedApps = map analysis_appName highRisk\<rparr>]
         else [])"

definition identifyComplianceGaps :: "AppRiskAnalysis list \<Rightarrow> AssessmentGap list" where
  "identifyComplianceGaps analyses =
     (let appsWithoutPrivacyPolicy =
            filter (\<lambda>a. \<not> list_ex (\<lambda>g. gap_regulation g = ''GDPR'') (analysis_complianceGaps a))
              analyses
      in if length appsWithoutPrivacyPolicy > 0
         then [\<lparr>ag_regulation = ''GDPR'', ag_requirement = ''Data Processing Agreements'',
                ag_affectedApps = map analysis_appName appsWithoutPrivacyPolicy,
                ag_riskLevel = RiskLevel.HIGH,
                ag_remediation =
                  ''Obtain data processing agreements from all third-party apps''\<rparr>]
         else [])"

definition breakdownComponent :: "rat \<Rightarrow> AppRiskAnalysis list \<Rightarrow> number" where
  \<comment> \<open>one field of \<^verbatim>\<open>calculateRiskBreakdown\<close>; \<open>w\<close> is the weight literal as a binary64 value\<close>
  "breakdownComponent w analyses =
     Math_round_number
       (js_div (foldl (\<lambda>sum a. fadd sum (fmul (of_int (analysis_riskScore a)) w)) 0 analyses)
               (of_nat (length analyses)))"

definition calculateRiskBreakdown :: "AppRiskAnalysis list \<Rightarrow> RiskBreakdown" where
  "calculateRiskBreakdown analyses =
     \<lparr>rb_dataAccess = breakdownComponent (fl (3 / 10)) analyses,
      rb_permissions = breakdownComponent (fl (25 / 100)) analyses,
      rb_compliance = breakdownComponent (fl (2 / 10)) analyses,
      rb_security = breakdownComponent (fl (15 / 100)) analyses,
      rb_reputation = breakdownComponent (fl (1 / 10)) analyses\<rparr>"

text \<open>
  The loop of \<^verbatim>\<open>performRiskAssessment\<close> over the active apps of the merchant (the result
  of the query): it collects the analyses, the sum of the risk scores and the three
  counters, and writes the risk fields back into each app, which it saves.
\<close>

record AssessmentLoop =
  riskAnalyses :: "AppRiskAnalysis list"
  totalRiskScore :: rat
  loop_highRiskApps :: nat
  loop_mediumRiskApps :: nat
  loop_lowRiskApps :: nat
  savedApps :: "ThirdPartyApp list"

fun performRiskAssessment_loop :: "int \<Rightarrow> ThirdPartyApp list \<Rightarrow> AssessmentLoop \<Rightarrow> AssessmentLoop" where
  "performRiskAssessment_loop now [] acc = acc"
| "performRiskAssessment_loop now (app # apps) acc =
     (let analysis = analyzeAppRisk app;
          app' = app\<lparr>app_riskLevel := analysis_riskLevel analysis,
                     app_riskScore := analysis_riskScore analysis,
                     complianceIssues :=
                       Some (map (\<lambda>factor.
                                \<lparr>issue_severity = severity factor,
                                 issue_category = category factor,
                                 issue_description = description factor,
                                 issue_recommendation =
                                   ''Address '' @ toLowerCase (category factor) @ '' risk'',
                                 resolved = False\<rparr>)
                              (analysis_riskFactors analysis)),
                     lastRiskAssessment := Some now\<rparr>;
          lvl = analysis_riskLevel analysis
      in performRiskAssessment_loop now apps
           \<lparr>riskAnalyses = riskAnalyses acc @ [analysis],
            totalRiskScore = fadd (totalRiskScore acc) (of_int (analysis_riskScore analysis)),
            loop_highRiskApps =
              (if lvl = RiskLevel.HIGH \<or> lvl = RiskLevel.CRITICAL
               then loop_highRiskApps acc + 1 else loop_highRiskApps acc),
            loop_mediumRiskApps =
              (if lvl = RiskLevel.MEDIUM then loop_mediumRiskApps acc + 1
               else loop_mediumRiskApps acc),
            loop_lowRiskApps =
              (if lvl = RiskLevel.LOW then loop_lowRiskApps acc + 1 else loop_lowRiskApps acc),
            savedApps = savedApps acc @ [app']\<rparr>)"

definition performRiskAssessment ::
  "int \<Rightarrow> string \<Rightarrow> ThirdPartyApp list \<Rightarrow> ThirdPartyApp list \<times> AppRiskAssessment" where
  "performRiskAssessment now merchantId apps =
     (let l = performRiskAssessment_loop now apps
                \<lparr>riskAnalyses = [], totalRiskScore = 0, loop_highRiskApps = 0,
                 loop_mediumRiskApps = 0, loop_lowRiskApps = 0, savedApps = []\<rparr>;
          overall =
            (if length apps > 0 then fdiv (totalRiskScore l) (of_nat (length apps)) else 0)
      in (savedApps l,
          \<lparr>assessment_merchantId = merchantId, totalApps = length apps,
           highRiskApps = loop_highRiskApps l, mediumRiskApps = loop_mediumRiskApps l,
           lowRiskApps = loop_lowRiskApps l, overallRiskScore = Math_round overall,
           riskBreakdown = calculateRiskBreakdown (riskAnalyses l),
           assessment_recommendations = generateRecommendations (riskAnalyses l),
           assessment_complianceGaps = identifyComplianceGaps (riskAnalyses l)\<rparr>))"

section \<open>Compliance health check (monitoring.service.ts)\<close>

datatype AlertSeverity = LOW | MEDIUM | HIGH | CRITICAL

record HealthIssue =
  issue_type :: string
  health_severity :: AlertSeverity
  health_description :: string
  health_recommendation :: string

record ComplianceHealthCheck =
  health_merchantId :: string
  overallScore :: int
  issues :: "HealthIssue list"
  lastAuditDate :: "int option"
  nextAuditDue :: int

text \<open>
  A date is its time value, an integer number of milliseconds. The health check reads
  the merchant, the newest audit, three counts of rows and the clock; \<open>HealthInputs\<close>
  holds what these reads returned: whether the merchant was found, the creation time of
  the newest audit if there is one, the clock when the age of that audit is computed
  and when the next due date is computed, and the counts (the count of overdue
  requests is only queried when a request is pending).
\<close>

record HealthInputs =
  merchantFound :: bool
  lastAuditCreatedAt :: "int option"
  clock :: int
  pendingDSRs :: nat
  overdueCount :: nat
  recentWithdrawals :: nat
  recentBreaches :: nat
  clockDue :: int

datatype days = Days int | Infinity

fun days_gt :: "days \<Rightarrow> int \<Rightarrow> bool" where
  "days_gt (Days d) n = (d > n)"
| "days_gt Infinity n = True"

definition daysSinceLastAudit :: "int option \<Rightarrow> int \<Rightarrow> days" where
  "daysSinceLastAudit lastAudit now =
     (case lastAudit of
        Some createdAt \<Rightarrow> Days \<lfloor>fdiv (of_int (now - createdAt)) (1000 * 60 * 60 * 24)\<rfloor>
      | None \<Rightarrow> Infinity)"

text \<open>
  The four checks of the health check, each on the list of issues and the running score.
\<close>

definition checkRecentAudit :: "days \<Rightarrow> HealthIssue list \<times> int \<Rightarrow> HealthIssue list \<times> int" where
  "checkRecentAudit d acc =
     (case acc of (iss, sc) \<Rightarrow>
        if days_gt d 90
        then (iss @ [\<lparr>issue_type = ''audit_overdue'', health_severity = AlertSeverity.HIGH,
                       health_description = ''Compliance audit is overdue'',
                       health_recommendation =
                         ''Schedule and complete a compliance audit immediately''\<rparr>],
              sc - 20)
        else if days_gt d 60
        then (iss @ [\<lparr>issue_type = ''audit_due_soon'', health_severity = AlertSeverity.MEDIUM,
                       health_description = ''Compliance audit due soon'',
                       health_recommendation =
                         ''Schedule a compliance audit within the next 30 days''\<rparr>],
              sc - 10)
        else (iss, sc))"

definition checkPendingRequests ::
  "nat \<Rightarrow> nat \<Rightarrow> HealthIssue list \<times> int \<Rightarrow> HealthIssue list \<times> int" where
  "checkPendingRequests pending overdue acc =
     (case acc of (iss, sc) \<Rightarrow>
        if pending > 0
        then (if overdue > 0
              then (iss @ [\<lparr>issue_type = ''overdue_dsr'',
                             health_severity = AlertSeverity.CRITICAL,
                             health_description =
                               toString overdue @ '' data subject requests are overdue'',
                             health_recommendation =
                               ''Process overdue data subject requests immediately''\<rparr>],
                    sc - 30)
              else if pending > 5
              then (iss @ [\<lparr>issue_type = ''high_pending_dsr'',
                             health_severity = AlertSeverity.HIGH,
                             health_description =
                               toString pending @ '' pending data subject requests'',
                             health_recommendation = ''Review and process pending requests''\<rparr>],
                    sc - 15)
              else (iss, sc))
        else (iss, sc))"

definition checkConsentWithdrawals :: "nat \<Rightarrow> HealthIssue list \<times> int \<Rightarrow> HealthIssue list \<times> int" where
  "checkConsentWithdrawals withdrawals acc =
     (case acc of (iss, sc) \<Rightarrow>
        if withdrawals > 10
        then (iss @ [\<lparr>issue_type = ''high_consent_withdrawals'',
                       health_severity = AlertSeverity.MEDIUM,
                       health_description =
                         toString withdrawals @ '' consent withdrawals in the last 30 days'',
                       health_recommendation =
                         ''Review consent collection practices and user experience''\<rparr>],
              sc - 15)
        else (iss, sc))"

definition checkRecentBreaches :: "nat \<Rightarrow> HealthIssue list \<times> int \<Rightarrow> HealthIssue list \<times> int" where
  "checkRecentBreaches breaches acc =
     (case acc of (iss, sc) \<Rightarrow>
        if breaches > 0
        then (iss @ [\<lparr>issue_type = ''recent_breaches'',
                       health_severity = AlertSeverity.CRITICAL,
                       health_description =
                         toString breaches @ '' breach incidents in the last 30 days'',
                       health_recommendation =
                         ''Review breach response procedures and implement additional security measures''\<rparr>],
              sc - 40)
        else (iss, sc))"

definition performComplianceHealthCheck :: "string \<Rightarrow> HealthInputs \<Rightarrow> exn + ComplianceHealthCheck" where
  "performComplianceHealthCheck merchantId inp =
     (if \<not> merchantFound inp
      then Inl (Error (''Merchant with ID '' @ merchantId @ '' not found''))
      else
        let acc1 = checkRecentAudit
                     (daysSinceLastAudit (lastAuditCreatedAt inp) (clock inp)) ([], 100);
            acc2 = checkPendingRequests (pendingDSRs inp) (overdueCount inp) acc1;
            acc3 = checkConsentWithdrawals (recentWithdrawals inp) acc2;
            acc4 = checkRecentBreaches (recentBreaches inp) acc3
        in Inr \<lparr>health_merchantId = merchantId,
                overallScore = max 0 (snd acc4),
                issues = fst acc4,
                lastAuditDate = lastAuditCreatedAt inp,
                nextAuditDue =
                  (case lastAuditCreatedAt inp of
                     Some createdAt \<Rightarrow> createdAt + 90 * 24 * 60 * 60 * 1000
                   | None \<Rightarrow> clockDue inp)\<rparr>)"

section \<open>Properties of the number model\<close>

lemma round_even_of_int: "round_even (of_int z) = z"
  by (simp add: round_even_def)

lemma ilog2_lower_ge1:
  assumes "1 \<le> x"
  shows "2 powi (ilog2 x) \<le> x"
proof -
  let ?n = "\<lfloor>x\<rfloor>"
  have n: "0 < ?n" using assms by simp
  have b: "2 ^ nat (bitlen ?n - 1) \<le> ?n" using bitlen_bounds [OF n] by simp
  have "1 \<le> bitlen ?n" using n by (simp add: bitlen_alt_def)
  then have "(2::rat) powi (bitlen ?n - 1) = 2 ^ nat (bitlen ?n - 1)"
    by (simp add: power_int_def)
  also have "\<dots> = of_int (2 ^ nat (bitlen ?n - 1))" by simp
  also have "\<dots> \<le> of_int ?n" using b by (simp only: of_int_le_iff)
  also have "\<dots> \<le> x" by simp
  finally show ?thesis using assms by (simp add: ilog2_def)
qed

lemma ilog2_lower_lt1:
  assumes "0 < x" "x < 1"
  shows "2 powi (ilog2 x) \<le> x"
proof -
  define c where "c = \<lceil>1 / x\<rceil>"
  have y: "1 < 1 / x" using assms by simp
  then have n: "0 < c - 1" unfolding c_def by linarith
  have yc: "1 / x \<le> of_int c" unfolding c_def by (rule le_of_int_ceiling)
  have "c - 1 < 2 ^ nat (bitlen (c - 1))" using bitlen_bounds [OF n] by simp
  then have "c \<le> 2 ^ nat (bitlen (c - 1))" by simp
  then have "(of_int c :: rat) \<le> of_int (2 ^ nat (bitlen (c - 1)))"
    by (simp only: of_int_le_iff)
  then have "(of_int c :: rat) \<le> 2 ^ nat (bitlen (c - 1))" by simp
  with yc have le: "1 / x \<le> 2 ^ nat (bitlen (c - 1))" by (rule order_trans)
  have "0 \<le> bitlen (c - 1)" by (rule bitlen_nonneg)
  then have "(2::rat) powi bitlen (c - 1) = 2 ^ nat (bitlen (c - 1))"
    by (simp add: power_int_def)
  then have "(2::rat) powi (- bitlen (c - 1)) = 1 / 2 ^ nat (bitlen (c - 1))"
    by (simp only: power_int_minus_divide)
  also have "\<dots> \<le> x"
    using le assms by (simp add: field_simps)
  finally show ?thesis using assms by (simp add: ilog2_def c_def)
qed

lemma ilog2_lower: "0 < x \<Longrightarrow> 2 powi (ilog2 x) \<le> x"
  using ilog2_lower_ge1 [of x] ilog2_lower_lt1 [of x] by (cases "1 \<le> x") auto

lemma ilog2_upper_ge1:
  assumes "1 \<le> x"
  shows "x < 2 powi (ilog2 x + 1)"
proof -
  let ?n = "\<lfloor>x\<rfloor>"
  have n: "0 < ?n" using assms by simp
  have b: "?n < 2 ^ nat (bitlen ?n)" using bitlen_bounds [OF n] by simp
  then have "?n + 1 \<le> 2 ^ nat (bitlen ?n)" by simp
  then have "(of_int (?n + 1) :: rat) \<le> of_int (2 ^ nat (bitlen ?n))"
    by (simp only: of_int_le_iff)
  then have le: "(of_int (?n + 1) :: rat) \<le> 2 ^ nat (bitlen ?n)" by simp
  have "x < of_int (?n + 1)" by linarith
  then have "x < 2 ^ nat (bitlen ?n)" using le by (rule less_le_trans)
  moreover have "(2::rat) powi bitlen ?n = 2 ^ nat (bitlen ?n)"
    using bitlen_nonneg [of ?n] by (simp add: power_int_def)
  ultimately show ?thesis using assms by (simp add: ilog2_def)
qed

lemma ilog2_upper_lt1:
  assumes "0 < x" "x < 1"
  shows "x < 2 powi (ilog2 x + 1)"
proof -
  define c where "c = \<lceil>1 / x\<rceil>"
  have y: "1 < 1 / x" using assms by simp
  then have n: "0 < c - 1" unfolding c_def by linarith
  have cy: "of_int (c - 1) < 1 / x" unfolding c_def by linarith
  have k1: "1 \<le> bitlen (c - 1)" using n by (simp add: bitlen_alt_def)
  have "2 ^ nat (bitlen (c - 1) - 1) \<le> c - 1" using bitlen_bounds [OF n] by simp
  then have "(of_int (2 ^ nat (bitlen (c - 1) - 1)) :: rat) \<le> of_int (c - 1)"
    by (simp only: of_int_le_iff)
  then have "(2 ^ nat (bitlen (c - 1) - 1) :: rat) \<le> of_int (c - 1)" by simp
  then have lt: "(2 ^ nat (bitlen (c - 1) - 1) :: rat) < 1 / x" using cy by (rule le_less_trans)
  have "(2::rat) powi (bitlen (c - 1) - 1) = 2 ^ nat (bitlen (c - 1) - 1)"
    using k1 by (simp add: power_int_def)
  then have "(2::rat) powi (- (bitlen (c - 1) - 1)) = 1 / 2 ^ nat (bitlen (c - 1) - 1)"
    by (simp only: power_int_minus_divide)
  moreover have "x < 1 / 2 ^ nat (bitlen (c - 1) - 1)"
    using lt assms by (simp add: field_simps)
  ultimately have "x < 2 powi (- (bitlen (c - 1) - 1))" by simp
  moreover have "ilog2 x + 1 = - (bitlen (c - 1) - 1)"
    using assms by (simp add: ilog2_def c_def)
  ultimately show ?thesis by simp
qed

lemma ilog2_bounds:
  assumes "0 < x"
  shows "2 powi (ilog2 x) \<le> x \<and> x < 2 powi (ilog2 x + 1)"
  using assms ilog2_lower [of x] ilog2_upper_ge1 [of x] ilog2_upper_lt1 [of x]
  by (cases "1 \<le> x") auto

lemma round_even_error: "\<bar>of_int (round_even r) - r\<bar> \<le> 1 / 2"
proof -
  have "of_int \<lfloor>r\<rfloor> \<le> r" "r < of_int \<lfloor>r\<rfloor> + 1" by linarith+
  then show ?thesis by (auto simp: round_even_def Let_def abs_le_iff)
qed

text \<open>The rounding error is at most half a unit in the last place.\<close>

lemma fl_error:
  assumes "x \<noteq> 0"
  shows "\<bar>fl x - x\<bar> \<le> 2 powi (ilog2 \<bar>x\<bar> - 52) / 2"
proof -
  define u :: rat where "u = 2 powi (ilog2 \<bar>x\<bar> - 52)"
  have u: "0 < u" by (simp add: u_def)
  have "fl x - x = (of_int (round_even (x / u)) - x / u) * u"
    using assms u by (simp add: fl_def u_def Let_def algebra_simps)
  then have "\<bar>fl x - x\<bar> = \<bar>of_int (round_even (x / u)) - x / u\<bar> * u"
    using u by (simp add: abs_mult)
  also have "\<dots> \<le> 1 / 2 * u"
    using round_even_error [of "x / u"] u by (intro mult_right_mono) simp_all
  finally show ?thesis by (simp add: u_def)
qed

text \<open>
  A number \<open>m * 2 powi j\<close> with fewer than 54 significant bits is a binary64 value:
  rounding leaves it unchanged.
\<close>

lemma fl_exact:
  assumes x: "x = of_int m * 2 powi j" and bound: "\<bar>x\<bar> < 2 powi (j + 53)"
  shows "fl x = x"
proof (cases "x = 0")
  case True
  then show ?thesis by (simp add: fl_def)
next
  case False
  define e where "e = ilog2 \<bar>x\<bar>"
  have "2 powi e \<le> \<bar>x\<bar>" unfolding e_def using False by (intro ilog2_lower) simp
  with bound have "(2::rat) powi e < 2 powi (j + 53)" by simp
  then have "e < j + 53"
    using power_int_increasing [of "j + 53" e "2::rat"] by (cases "e < j + 53") auto
  then have k: "0 \<le> j - (e - 52)" by simp
  define u :: rat where "u = 2 powi (e - 52)"
  have u0: "u \<noteq> 0" by (simp add: u_def)
  have "x / u = of_int m * (2 powi j / 2 powi (e - 52))" by (simp add: x u_def)
  also have "2 powi j / 2 powi (e - 52) = (2::rat) powi (j - (e - 52))"
    by (simp add: power_int_diff)
  also have "\<dots> = 2 ^ nat (j - (e - 52))" using k by (simp add: power_int_def)
  finally have q: "x / u = of_int (m * 2 ^ nat (j - (e - 52)))" by simp
  then have "round_even (x / u) = m * 2 ^ nat (j - (e - 52))"
    by (simp only: round_even_of_int)
  then have "of_int (round_even (x / u)) * u = x / u * u"
    using q by simp
  also have "\<dots> = x" using u0 by simp
  finally show ?thesis using False by (simp add: fl_def e_def u_def Let_def)
qed

lemma fl_half: "\<bar>of_int n / 2 :: rat\<bar> < 2 ^ 52 \<Longrightarrow> fl (of_int n / 2) = of_int n / 2"
  using fl_exact [of "of_int n / 2" n "-1"] by simp

lemma fl_int: "\<bar>of_int n :: rat\<bar> < 2 ^ 53 \<Longrightarrow> fl (of_int n) = of_int n"
  using fl_exact [of "of_int n" n 0] by simp

lemma fl_one_half: "fl (1 / 2) = 1 / 2"
  using fl_exact [of "1 / 2" 1 "-1"] by simp

lemma fadd_half:
  assumes "x = of_int a / 2" "y = of_int c / 2" "\<bar>x + y\<bar> < 2 ^ 52"
  shows "fadd x y = x + y"
proof -
  have e: "x + y = of_int (a + c) / 2" using assms by (simp add: add_divide_distrib)
  have "\<bar>of_int (a + c) / 2 :: rat\<bar> < 2 ^ 52" using assms(3) unfolding e .
  then have "fl (of_int (a + c) / 2) = of_int (a + c) / 2" by (rule fl_half)
  then show ?thesis unfolding fadd_def e .
qed

lemma half_int_iff: "half_int x \<longleftrightarrow> of_int \<lfloor>2 * x\<rfloor> = 2 * x"
proof
  assume "half_int x"
  then obtain k where "x = of_int k / 2" unfolding half_int_def by blast
  then have "2 * x = of_int k" by simp
  then show "of_int \<lfloor>2 * x\<rfloor> = 2 * x" by (simp only: floor_of_int)
next
  assume a: "of_int \<lfloor>2 * x\<rfloor> = 2 * x"
  have "x = (2 * x) / 2" by simp
  also have "\<dots> = of_int \<lfloor>2 * x\<rfloor> / 2" by (simp only: a)
  finally show "half_int x" unfolding half_int_def by blast
qed

lemma half_int_add: "half_int x \<Longrightarrow> half_int y \<Longrightarrow> half_int (x + y)"
  unfolding half_int_def
proof -
  assume "\<exists>k. x = of_int k / 2" "\<exists>k. y = of_int k / 2"
  then obtain a c where "x = of_int a / 2" "y = of_int c / 2" by blast
  then have "x + y = of_int (a + c) / 2" by (simp add: add_divide_distrib)
  then show "\<exists>k. x + y = of_int k / 2" by blast
qed

lemma fadd_half_int:
  assumes "half_int x" "half_int y" "\<bar>x + y\<bar> < 2 ^ 52"
  shows "fadd x y = x + y"
proof -
  from assms(1,2) obtain a c where "x = of_int a / 2" "y = of_int c / 2"
    unfolding half_int_def by blast
  then show ?thesis using assms(3) by (rule fadd_half)
qed

lemma Math_round_zero: "Math_round 0 = 0"
  by (simp add: Math_round_def floor_eq_iff)

text \<open>
  Two values of the model against their binary64 values: the literal 0.1, and the
  quotient of 11.5 and 20 with its product by 100.
\<close>

lemma fl_one_tenth: "fl (1 / 10) = 3602879701896397 / 36028797018963968"
  by code_simp

lemma fdiv_fmul_example:
  "fdiv (23 / 2) 20 = 2589569785738035 / 4503599627370496 \<and>
   fmul (fdiv (23 / 2) 20) 100 = 8092405580431359 / 140737488355328"
  by code_simp

text \<open>
  The error of a rounding below a power of two, the error of the rounded quotient of two
  numbers \<open>0 \<le> t \<le> m\<close> multiplied by 100, and the floor of a value that is closer
  to a fraction \<open>N / D\<close> than \<open>1 / D\<close>.
\<close>

lemma ilog2_less:
  assumes "0 < x" "x < 2 powi k"
  shows "ilog2 x < k"
proof -
  have "2 powi (ilog2 x) \<le> x" using assms(1) by (rule ilog2_lower)
  with assms(2) have "(2::rat) powi (ilog2 x) < 2 powi k" by simp
  then show ?thesis
    using power_int_increasing [of k "ilog2 x" "2::rat"] by (cases "ilog2 x < k") auto
qed

lemma fl_error_below:
  assumes "\<bar>x\<bar> < 2 powi k"
  shows "\<bar>fl x - x\<bar> \<le> 2 powi (k - 53) / 2"
proof (cases "x = 0")
  case True
  then show ?thesis by (simp add: fl_def)
next
  case False
  then have "ilog2 \<bar>x\<bar> < k" using assms by (intro ilog2_less) simp_all
  then have "ilog2 \<bar>x\<bar> - 52 \<le> k - 53" by simp
  then have "(2::rat) powi (ilog2 \<bar>x\<bar> - 52) \<le> 2 powi (k - 53)"
    by (intro power_int_increasing) simp_all
  with fl_error [OF False] show ?thesis by simp
qed

lemma fmul_fdiv_100_error:
  assumes "0 \<le> t" "t \<le> m" "0 < m"
  shows "\<bar>fmul (fdiv t m) 100 - t / m * 100\<bar> \<le> 164 / 2 ^ 53"
proof -
  define q where "q = t / m"
  define p where "p = fl q * 100"
  have q: "0 \<le> q" "q \<le> 1" using assms by (simp_all add: q_def)
  then have "\<bar>q\<bar> < 2 powi 1" by simp
  from fl_error_below [OF this] have e1: "\<bar>fl q - q\<bar> \<le> 1 / 2 ^ 53"
    by (simp add: power_int_minus_divide)
  have "p - q * 100 = (fl q - q) * 100" by (simp add: p_def algebra_simps)
  then have "\<bar>p - q * 100\<bar> = \<bar>fl q - q\<bar> * \<bar>100\<bar>" by (simp only: abs_mult)
  then have e2: "\<bar>p - q * 100\<bar> \<le> 100 / 2 ^ 53" using e1 by simp
  have e2': "\<bar>p - q * 100\<bar> \<le> 1" using e2 by simp
  have "\<bar>p\<bar> < 128" using q e2' by linarith
  then have "\<bar>p\<bar> < 2 powi 7" by simp
  from fl_error_below [OF this] have e3: "\<bar>fl p - p\<bar> \<le> 64 / 2 ^ 53"
    by (simp add: power_int_minus_divide)
  have "\<bar>fl p - q * 100\<bar> \<le> \<bar>fl p - p\<bar> + \<bar>p - q * 100\<bar>" by linarith
  also have "\<dots> \<le> 64 / 2 ^ 53 + 100 / 2 ^ 53" using e3 e2 by (rule add_mono)
  also have "\<dots> = 164 / 2 ^ 53" by simp
  finally have "\<bar>fl p - q * 100\<bar> \<le> 164 / 2 ^ 53" .
  then show ?thesis by (simp only: fmul_def fdiv_def p_def q_def)
qed

lemma floor_near:
  fixes v y :: rat
  assumes D: "0 < D" and y: "y * of_int D = of_int N" and v: "\<bar>v - y\<bar> < 1 / of_int D"
  shows "(of_int \<lfloor>y\<rfloor> \<noteq> y \<longrightarrow> \<lfloor>v\<rfloor> = \<lfloor>y\<rfloor>) \<and>
         (of_int \<lfloor>y\<rfloor> = y \<longrightarrow> \<lfloor>v\<rfloor> = \<lfloor>y\<rfloor> \<or> \<lfloor>v\<rfloor> = \<lfloor>y\<rfloor> - 1)"
proof -
  define n where "n = \<lfloor>y\<rfloor>"
  define r where "r = N - n * D"
  have Dr: "(0::rat) < of_int D" using D by simp
  have fr: "(y - of_int n) * of_int D = of_int r"
    using y by (simp add: r_def algebra_simps)
  have n0: "of_int n \<le> y" "y < of_int n + 1" unfolding n_def by linarith+
  have v': "y - 1 / of_int D < v" "v < y + 1 / of_int D" using v by (simp_all add: abs_less_iff)
  have D1: "1 / (of_int D :: rat) \<le> 1" using D by simp
  show ?thesis
  proof (intro conjI impI)
    assume ne: "of_int \<lfloor>y\<rfloor> \<noteq> y"
    then have "of_int n \<noteq> y" unfolding n_def .
    then have "0 < y - of_int n" using n0 by linarith
    then have "0 < (y - of_int n) * of_int D" using Dr by simp
    then have "(0::rat) < of_int r" unfolding fr .
    then have "1 \<le> r" by simp
    then have "(1::rat) \<le> of_int r" by simp
    then have "1 \<le> (y - of_int n) * of_int D" unfolding fr .
    then have lo: "1 / of_int D \<le> y - of_int n" using Dr by (simp add: field_simps)
    have "(y - of_int n) * of_int D < 1 * of_int D" using n0 Dr by simp
    then have "of_int r < (of_int D :: rat)" unfolding fr by simp
    then have "r < D" by simp
    then have "r + 1 \<le> D" by simp
    then have "(of_int (r + 1) :: rat) \<le> of_int D" by (simp only: of_int_le_iff)
    then have "(y - of_int n) * of_int D + 1 \<le> of_int D" unfolding fr by simp
    then have hi: "y - of_int n \<le> 1 - 1 / of_int D" using Dr by (simp add: field_simps)
    have "of_int n \<le> v" "v < of_int n + 1" using lo hi v' by linarith+
    then have "\<lfloor>v\<rfloor> = n" by linarith
    then show "\<lfloor>v\<rfloor> = \<lfloor>y\<rfloor>" by (simp add: n_def)
  next
    assume eq: "of_int \<lfloor>y\<rfloor> = y"
    then have "y = of_int n" unfolding n_def by (rule sym)
    then have "of_int n - 1 \<le> v" "v < of_int n + 1" using v' D1 by linarith+
    then have "\<lfloor>v\<rfloor> = n \<or> \<lfloor>v\<rfloor> = n - 1" by linarith
    then show "\<lfloor>v\<rfloor> = \<lfloor>y\<rfloor> \<or> \<lfloor>v\<rfloor> = \<lfloor>y\<rfloor> - 1" by (simp add: n_def)
  qed
qed

section \<open>The audit check pipeline\<close>

lemma deduction_checkPrivacyPolicy:
  "deduction (checkPrivacyPolicy ps) =
     (case ps of [] \<Rightarrow> 30 | p # _ \<Rightarrow> if policy_status p \<noteq> ''published'' then 15 else 0)"
  by (simp add: checkPrivacyPolicy_def split: list.splits)

lemma deduction_checkDataMapping:
  "deduction (checkDataMapping ds) = (if ds = [] then 25 else 0)"
  by (simp add: checkDataMapping_def)

lemma deduction_checkLegalBasis:
  "deduction (checkLegalBasis ds) =
     (if \<exists>p \<in> set ds. \<not> truthy_string (legalBasis p) then 20 else 0)"
  by (auto simp: checkLegalBasis_def Let_def filter_empty_conv)

lemma deduction_checkRetentionPolicies:
  "deduction (checkRetentionPolicies ds) =
     (if \<exists>p \<in> set ds. \<not> truthy_int (retentionPeriod p) then 10 else 0)"
  by (auto simp: checkRetentionPolicies_def Let_def filter_empty_conv)

lemma performAuditChecks_score:
  assumes "policyFind q = Inr ps" "mappingFind q = Inr dm" "legalFind q = Inr dl"
    "retentionFind q = Inr dr"
  shows "\<exists>r. performAuditChecks q = Inr r \<and>
           score r = max 0 (min 100 (100 - (deduction (checkPrivacyPolicy ps) +
             deduction (checkDataMapping dm) + deduction (checkLegalBasis dl) +
             deduction (checkRetentionPolicies dr)))) \<and>
           status r = determineComplianceStatus (score r)"
  using assms by (simp add: performAuditChecks_def Let_def algebra_simps)

text \<open>
  Claim C1. Whatever the four queries of an audit resolve to, \<open>performAuditChecks\<close>
  returns a result whose score is 100 minus the deductions of the triggered checks,
  clamped to the interval from 0 to 100: 30 when there is no policy, 15 when the newest
  policy is not published, 25 when no data collection point is mapped, 20 when some data
  point has no legal basis, 10 when some data point has no retention period. The status
  is \<open>compliant\<close> exactly when the score is at least 80, \<open>under_review\<close> exactly when it
  is at least 60 and below 80, and \<open>non_compliant\<close> exactly when it is below 60.
\<close>

theorem performAuditChecks_score_status:
  assumes "policyFind q = Inr ps" and "mappingFind q = Inr dm"
    and "legalFind q = Inr dl" and "retentionFind q = Inr dr"
  shows "\<exists>r. performAuditChecks q = Inr r \<and>
           score r =
             max 0 (min 100 (100 -
               ((case ps of [] \<Rightarrow> 30
                 | p # _ \<Rightarrow> if policy_status p \<noteq> ''published'' then 15 else 0) +
                (if dm = [] then 25 else 0) +
                (if \<exists>p \<in> set dl. \<not> truthy_string (legalBasis p) then 20 else 0) +
                (if \<exists>p \<in> set dr. \<not> truthy_int (retentionPeriod p) then 10 else 0)))) \<and>
           (status r = audit_status.compliant \<longleftrightarrow> score r \<ge> 80) \<and>
           (status r = audit_status.under_review \<longleftrightarrow> 60 \<le> score r \<and> score r < 80) \<and>
           (status r = audit_status.non_compliant \<longleftrightarrow> score r < 60)"
proof -
  from performAuditChecks_score [OF assms] obtain r where
    r: "performAuditChecks q = Inr r"
    and sc: "score r = max 0 (min 100 (100 - (deduction (checkPrivacyPolicy ps) +
             deduction (checkDataMapping dm) + deduction (checkLegalBasis dl) +
             deduction (checkRetentionPolicies dr))))"
    and st: "status r = determineComplianceStatus (score r)"
    by blast
  have "(status r = audit_status.compliant \<longleftrightarrow> score r \<ge> 80) \<and>
        (status r = audit_status.under_review \<longleftrightarrow> 60 \<le> score r \<and> score r < 80) \<and>
        (status r = audit_status.non_compliant \<longleftrightarrow> score r < 60)"
    unfolding st by (simp add: determineComplianceStatus_def)
  with r sc show ?thesis
    unfolding deduction_checkPrivacyPolicy deduction_checkDataMapping
      deduction_checkLegalBasis deduction_checkRetentionPolicies
    by blast
qed

theorem performAuditChecks_score_status_witness:
  "\<exists>r. performAuditChecks
          \<lparr>policyFind = Inr [\<lparr>policy_id = ''p1'', policy_status = ''draft''\<rparr>],
           mappingFind = Inr [\<lparr>point_id = ''d1'', legalBasis = None, retentionPeriod = Some 365\<rparr>],
           legalFind = Inr [\<lparr>point_id = ''d1'', legalBasis = None, retentionPeriod = Some 365\<rparr>],
           retentionFind =
             Inr [\<lparr>point_id = ''d1'', legalBasis = None, retentionPeriod = Some 365\<rparr>]\<rparr> = Inr r \<and>
        score r = 65 \<and> status r = audit_status.under_review"
  using performAuditChecks_score_status
    [of "\<lparr>policyFind = Inr [\<lparr>policy_id = ''p1'', policy_status = ''draft''\<rparr>],
          mappingFind = Inr [\<lparr>point_id = ''d1'', legalBasis = None, retentionPeriod = Some 365\<rparr>],
          legalFind = Inr [\<lparr>point_id = ''d1'', legalBasis = None, retentionPeriod = Some 365\<rparr>],
          retentionFind =
            Inr [\<lparr>point_id = ''d1'', legalBasis = None, retentionPeriod = Some 365\<rparr>]\<rparr>"
        "[\<lparr>policy_id = ''p1'', policy_status = ''draft''\<rparr>]"
        "[\<lparr>point_id = ''d1'', legalBasis = None, retentionPeriod = Some 365\<rparr>]"
        "[\<lparr>point_id = ''d1'', legalBasis = None, retentionPeriod = Some 365\<rparr>]"
        "[\<lparr>point_id = ''d1'', legalBasis = None, retentionPeriod = Some 365\<rparr>]"]
  by fastforce

text \<open>
  Claim C9. For a merchant with no privacy policy and no data collection point the
  audit checks return the score 45 and the status \<open>non_compliant\<close>, and exactly two
  findings: a critical one of category Privacy Policy, then a high one of category
  Data Mapping. The legal basis check and the retention check add no finding.
\<close>

theorem performAuditChecks_no_policy_no_data:
  "performAuditChecks
     \<lparr>policyFind = Inr [], mappingFind = Inr [], legalFind = Inr [], retentionFind = Inr []\<rparr> =
   Inr \<lparr>score = 45, status = audit_status.non_compliant,
        findings =
          [\<lparr>category = ''Privacy Policy'', severity = severity.critical,
            description = ''No privacy policy found'',
            impact = ''Legal requirement violation - GDPR Article 13/14''\<rparr>,
           \<lparr>category = ''Data Mapping'', severity = severity.high,
            description = ''No data collection points mapped'',
            impact = ''Cannot demonstrate data processing compliance''\<rparr>],
        recommendations =
          [\<lparr>priority = priority.urgent, title = ''Create Privacy Policy'',
            rec_description = ''Generate a GDPR-compliant privacy policy'',
            actionItems =
              [''Use AI policy generator'', ''Review legal requirements'', ''Publish policy''],
            estimatedEffort = ''2-4 hours''\<rparr>,
           \<lparr>priority = priority.high, title = ''Map Data Collection Points'',
            rec_description = ''Identify and document all personal data collection'',
            actionItems =
              [''Audit data collection forms'', ''Document processing purposes'',
               ''Define legal basis''],
            estimatedEffort = ''4-8 hours''\<rparr>]\<rparr>"
  by (simp add: performAuditChecks_def checkPrivacyPolicy_def checkDataMapping_def
      checkLegalBasis_def checkRetentionPolicies_def determineComplianceStatus_def)

text \<open>
  Claim C6 says that an exception of the checks is always recorded in the audit row and
  re-raised. The handler itself saves the row: when the policy query rejects with
  \<open>Audit failed\<close> and the save of the handler rejects with \<open>save failed\<close>, the caller
  receives \<open>save failed\<close> and the stored row keeps the status \<open>processing\<close> without
  error data.
\<close>

theorem runComplianceAudit_save_rejects_counterexample:
  "fst (runComplianceAudit ''m1'' 1700000000000
          \<lparr>policyFind = Inl (Error ''Audit failed''), mappingFind = Inr [],
           legalFind = Inr [], retentionFind = Inr []\<rparr>
          \<lparr>saveProcessing = None, saveCompleted = None, updateScore = None,
           saveFailed = Some (Error ''save failed'')\<rparr>
          \<lparr>merchants = [''m1'' \<mapsto> \<lparr>merchant_id = ''m1'', complianceScore = 85\<rparr>],
           audits = Map.empty, nextAuditId = 0\<rparr>) = Inl (Error ''save failed'') \<and>
   audits (snd (runComplianceAudit ''m1'' 1700000000000
          \<lparr>policyFind = Inl (Error ''Audit failed''), mappingFind = Inr [],
           legalFind = Inr [], retentionFind = Inr []\<rparr>
          \<lparr>saveProcessing = None, saveCompleted = None, updateScore = None,
           saveFailed = Some (Error ''save failed'')\<rparr>
          \<lparr>merchants = [''m1'' \<mapsto> \<lparr>merchant_id = ''m1'', complianceScore = 85\<rparr>],
           audits = Map.empty, nextAuditId = 0\<rparr>)) 0 =
     Some \<lparr>audit_id = Some 0,
           audit_merchant = \<lparr>merchant_id = ''m1'', complianceScore = 85\<rparr>,
           auditType = ''comprehensive'', audit_status = ''processing'', riskScore = None,
           audit_findings = None, audit_recommendations = None,
           auditData = None, completedAt = None\<rparr>"
  by (simp add: runComplianceAudit_def runComplianceAudit_try_def findById_def
      auditRepository_save_def auditRepository_create_def performAuditChecks_def Let_def)

text \<open>
  Claim C6, amended. Let the audit checks of \<open>runComplianceAudit\<close> throw an exception \<open>e\<close>
  for an existing merchant whose audit row for this run has been created. When the save
  of the handler succeeds, the call rejects with \<open>e\<close> itself and the audit row is stored
  with the status \<open>failed\<close> and with \<^verbatim>\<open>auditData.error\<close> equal to the message of \<open>e\<close>.
  When that save rejects, the call rejects with the exception of the save and the row
  keeps the status \<open>processing\<close>. In both cases the merchant table (with it the
  merchant's compliance score) is unchanged.
\<close>

theorem runComplianceAudit_failure:
  assumes "merchants st merchantId = Some m" and "performAuditChecks q = Inl e"
    and "saveProcessing w = None"
  shows "(saveFailed w = None \<longrightarrow>
            fst (runComplianceAudit merchantId now q w st) = Inl e \<and>
            audits (snd (runComplianceAudit merchantId now q w st)) (nextAuditId st) =
              Some \<lparr>audit_id = Some (nextAuditId st), audit_merchant = m,
                    auditType = ''comprehensive'', audit_status = ''failed'',
                    riskScore = None, audit_findings = None, audit_recommendations = None,
                    auditData = Some [(''error'', message e)], completedAt = None\<rparr>) \<and>
         (\<forall>e'. saveFailed w = Some e' \<longrightarrow>
            fst (runComplianceAudit merchantId now q w st) = Inl e' \<and>
            audits (snd (runComplianceAudit merchantId now q w st)) (nextAuditId st) =
              Some \<lparr>audit_id = Some (nextAuditId st), audit_merchant = m,
                    auditType = ''comprehensive'', audit_status = ''processing'',
                    riskScore = None, audit_findings = None, audit_recommendations = None,
                    auditData = None, completedAt = None\<rparr>) \<and>
         merchants (snd (runComplianceAudit merchantId now q w st)) = merchants st"
  using assms
  by (cases "saveFailed w")
    (simp_all add: runComplianceAudit_def runComplianceAudit_try_def findById_def
      auditRepository_save_def auditRepository_create_def Let_def)

theorem runComplianceAudit_failure_witness:
  "fst (runComplianceAudit ''m1'' 1700000000000
          \<lparr>policyFind = Inr [], mappingFind = Inl (Error ''Audit failed''),
           legalFind = Inr [], retentionFind = Inr []\<rparr>
          \<lparr>saveProcessing = None, saveCompleted = None, updateScore = None,
           saveFailed = None\<rparr>
          \<lparr>merchants = [''m1'' \<mapsto> \<lparr>merchant_id = ''m1'', complianceScore = 85\<rparr>],
           audits = Map.empty, nextAuditId = 0\<rparr>) = Inl (Error ''Audit failed'') \<and>
   merchants (snd (runComplianceAudit ''m1'' 1700000000000
          \<lparr>policyFind = Inr [], mappingFind = Inl (Error ''Audit failed''),
           legalFind = Inr [], retentionFind = Inr []\<rparr>
          \<lparr>saveProcessing = None, saveCompleted = None, updateScore = None,
           saveFailed = None\<rparr>
          \<lparr>merchants = [''m1'' \<mapsto> \<lparr>merchant_id = ''m1'', complianceScore = 85\<rparr>],
           audits = Map.empty, nextAuditId = 0\<rparr>)) ''m1'' =
     Some \<lparr>merchant_id = ''m1'', complianceScore = 85\<rparr> \<and>
   audits (snd (runComplianceAudit ''m1'' 1700000000000
          \<lparr>policyFind = Inr [], mappingFind = Inl (Error ''Audit failed''),
           legalFind = Inr [], retentionFind = Inr []\<rparr>
          \<lparr>saveProcessing = None, saveCompleted = None, updateScore = None,
           saveFailed = None\<rparr>
          \<lparr>merchants = [''m1'' \<mapsto> \<lparr>merchant_id = ''m1'', complianceScore = 85\<rparr>],
           audits = Map.empty, nextAuditId = 0\<rparr>)) 0 =
     Some \<lparr>audit_id = Some 0,
           audit_merchant = \<lparr>merchant_id = ''m1'', complianceScore = 85\<rparr>,
           auditType = ''comprehensive'', audit_status = ''failed'', riskScore = None,
           audit_findings = None, audit_recommendations = None,
           auditData = Some [(''error'', ''Audit failed'')], completedAt = None\<rparr>"
proof -
  let ?st = "\<lparr>merchants = [''m1'' \<mapsto> \<lparr>merchant_id = ''m1'', complianceScore = 85\<rparr>],
              audits = Map.empty, nextAuditId = 0\<rparr>"
  let ?q = "\<lparr>policyFind = Inr [], mappingFind = Inl (Error ''Audit failed''),
            legalFind = Inr [], retentionFind = Inr []\<rparr>"
  let ?w = "\<lparr>saveProcessing = None, saveCompleted = None, updateScore = None,
            saveFailed = None\<rparr>"
  have m: "merchants ?st ''m1'' = Some \<lparr>merchant_id = ''m1'', complianceScore = 85\<rparr>"
    by simp
  have p: "performAuditChecks ?q = Inl (Error ''Audit failed'')"
    by (simp add: performAuditChecks_def Let_def)
  have w1: "saveProcessing ?w = None"
    by simp
  show ?thesis
    using runComplianceAudit_failure [OF m p w1, of 1700000000000] by simp
qed

text \<open>
  The success path of \<open>runComplianceAudit\<close>: the audit is stored as completed with the
  risk score 100 minus the score, and the score is written to the merchant.
\<close>

lemma runComplianceAudit_success:
  assumes "merchants st merchantId = Some m" and "performAuditChecks q = Inr r"
    and "saveProcessing w = None" and "saveCompleted w = None" and "updateScore w = None"
  shows "fst (runComplianceAudit merchantId now q w st) =
           Inr \<lparr>audit_id = Some (nextAuditId st), audit_merchant = m,
                 auditType = ''comprehensive'', audit_status = ''completed'',
                 riskScore = Some (100 - score r), audit_findings = Some (findings r),
                 audit_recommendations = Some (recommendations r),
                 auditData = None, completedAt = Some now\<rparr> \<and>
         merchants (snd (runComplianceAudit merchantId now q w st)) merchantId =
           Some (m\<lparr>complianceScore := score r\<rparr>)"
  using assms
  by (simp add: runComplianceAudit_def runComplianceAudit_try_def findById_def
      auditRepository_save_def auditRepository_create_def updateComplianceScore_def Let_def)

section \<open>The regulatory gap analysis\<close>

lemma fmul_weight_half:
  "fmul (getRuleWeight r) (fl (1 / 2)) = getRuleWeight r / 2"
  unfolding fl_one_half fmul_def
  by (cases r) (use fl_half [of 10] fl_half [of 5] fl_half [of 1] in simp_all)

lemma getRuleWeight_halves:
  "\<exists>wi ci. getRuleWeight r = of_int wi / 2 \<and> getRuleWeight r / 2 = of_int ci / 2 \<and>
     0 \<le> wi \<and> 0 \<le> ci \<and> wi \<le> 20 \<and> ci \<le> 10"
proof (cases r)
  case MANDATORY
  then show ?thesis by (intro exI [of _ 20] exI [of _ 10]) simp
next
  case RECOMMENDED
  then show ?thesis by (intro exI [of _ 10] exI [of _ 5]) simp
next
  case OPTIONAL
  then show ?thesis by (intro exI [of _ 2] exI [of _ 1]) simp
qed

lemma performGapAnalysis_loop_step:
  assumes t: "t = of_int a / 2" and m: "m = of_int b / 2" and a: "0 \<le> a" and b: "0 \<le> b"
    and tb: "t + 10 < 2 ^ 52" and mb: "m + 10 < 2 ^ 52"
  shows "\<exists>a' b'. performGapAnalysis_loop now md (r # rs) (gs, t, m) =
           performGapAnalysis_loop now md rs
             (gs @ [analyzeRuleCompliance now r md], t + gap_credit now md r,
              m + getRuleWeight (requirement r)) \<and>
           t + gap_credit now md r = of_int a' / 2 \<and>
           m + getRuleWeight (requirement r) = of_int b' / 2 \<and> 0 \<le> a' \<and> 0 \<le> b' \<and>
           t + gap_credit now md r \<le> t + 10 \<and> m + getRuleWeight (requirement r) \<le> m + 10"
proof -
  obtain wi ci where w: "getRuleWeight (requirement r) = of_int wi / 2"
    and c: "getRuleWeight (requirement r) / 2 = of_int ci / 2"
    and r: "0 \<le> wi" "0 \<le> ci" "wi \<le> 20" "ci \<le> 10"
    using getRuleWeight_halves by blast
  let ?w = "getRuleWeight (requirement r)"
  have t0: "0 \<le> t" and m0: "0 \<le> m" using t m a b by simp_all
  have w0: "0 \<le> ?w" "?w \<le> 10" and c0: "0 \<le> ?w / 2" "?w / 2 \<le> 10"
    using r unfolding w by simp_all
  have mw: "fadd m ?w = m + ?w"
    using m w by (rule fadd_half) (use m0 w0 mb in linarith)
  have tw: "fadd t ?w = t + ?w"
    using t w by (rule fadd_half) (use t0 w0 tb in linarith)
  have tc: "fadd t (?w / 2) = t + ?w / 2"
    using t c by (rule fadd_half) (use t0 c0 tb in linarith)
  have mi: "m + ?w = of_int (b + wi) / 2" unfolding m w by (simp add: add_divide_distrib)
  have mle: "m + ?w \<le> m + 10" using w0 by simp
  have bi: "0 \<le> b + wi" using b r by simp
  show ?thesis
  proof (cases "currentStatus (analyzeRuleCompliance now r md)")
    case compliant
    have cr: "gap_credit now md r = ?w" using compliant by (simp add: gap_credit_def)
    have eq: "performGapAnalysis_loop now md (r # rs) (gs, t, m) =
           performGapAnalysis_loop now md rs
             (gs @ [analyzeRuleCompliance now r md], t + gap_credit now md r, m + ?w)"
      using compliant by (simp add: Let_def mw tw cr)
    have ti: "t + gap_credit now md r = of_int (a + wi) / 2"
      unfolding cr t w by (simp add: add_divide_distrib)
    have "0 \<le> a + wi" "t + gap_credit now md r \<le> t + 10" using a r w0 cr by simp_all
    with eq ti mi mle bi show ?thesis by blast
  next
    case partial
    have cr: "gap_credit now md r = ?w / 2" using partial by (simp add: gap_credit_def)
    have eq: "performGapAnalysis_loop now md (r # rs) (gs, t, m) =
           performGapAnalysis_loop now md rs
             (gs @ [analyzeRuleCompliance now r md], t + gap_credit now md r, m + ?w)"
      using partial by (simp add: Let_def mw tc cr fmul_weight_half)
    have ti: "t + gap_credit now md r = of_int (a + ci) / 2"
      unfolding cr t c by (simp add: add_divide_distrib)
    have "0 \<le> a + ci" "t + gap_credit now md r \<le> t + 10" using a r c0 cr by simp_all
    with eq ti mi mle bi show ?thesis by blast
  next
    case non_compliant
    have cr: "gap_credit now md r = 0" using non_compliant by (simp add: gap_credit_def)
    have eq: "performGapAnalysis_loop now md (r # rs) (gs, t, m) =
           performGapAnalysis_loop now md rs
             (gs @ [analyzeRuleCompliance now r md], t + gap_credit now md r, m + ?w)"
      using non_compliant by (simp add: Let_def mw cr)
    have ti: "t + gap_credit now md r = of_int a / 2" unfolding cr t by simp
    have "t + gap_credit now md r \<le> t + 10" using cr by simp
    with eq ti mi mle bi a show ?thesis by blast
  qed
qed

lemma performGapAnalysis_loop_exact:
  assumes "t = of_int a / 2" and "m = of_int b / 2" and "0 \<le> a" and "0 \<le> b"
    and "t + 10 * of_nat (length rules) < 2 ^ 52"
    and "m + 10 * of_nat (length rules) < 2 ^ 52"
  shows "performGapAnalysis_loop now md rules (gs, t, m) =
           (gs @ map (\<lambda>r. analyzeRuleCompliance now r md) rules,
            t + (\<Sum>r\<leftarrow>rules. gap_credit now md r),
            m + (\<Sum>r\<leftarrow>rules. getRuleWeight (requirement r)))"
  using assms
proof (induction rules arbitrary: gs t m a b)
  case Nil
  then show ?case by simp
next
  case (Cons r rs)
  have tb: "t + 10 < 2 ^ 52" and mb: "m + 10 < 2 ^ 52"
    using Cons.prems(5,6) by (simp_all add: algebra_simps)
  from performGapAnalysis_loop_step [OF Cons.prems(1-4) tb mb, of now md r rs gs]
  obtain a' b' where
    eq: "performGapAnalysis_loop now md (r # rs) (gs, t, m) =
           performGapAnalysis_loop now md rs
             (gs @ [analyzeRuleCompliance now r md], t + gap_credit now md r,
              m + getRuleWeight (requirement r))"
    and t': "t + gap_credit now md r = of_int a' / 2"
    and m': "m + getRuleWeight (requirement r) = of_int b' / 2"
    and nn: "0 \<le> a'" "0 \<le> b'"
    and le: "t + gap_credit now md r \<le> t + 10" "m + getRuleWeight (requirement r) \<le> m + 10"
    by blast
  have b1: "t + gap_credit now md r + 10 * of_nat (length rs) < 2 ^ 52"
    using le(1) Cons.prems(5) by (simp add: algebra_simps)
  have b2: "m + getRuleWeight (requirement r) + 10 * of_nat (length rs) < 2 ^ 52"
    using le(2) Cons.prems(6) by (simp add: algebra_simps)
  show ?case
    unfolding eq Cons.IH [OF t' m' nn b1 b2] by (simp add: algebra_simps)
qed


lemma gap_credit_half:
  "\<exists>c. gap_credit now md r = of_int c / 2 \<and> 0 \<le> c \<and>
       gap_credit now md r \<le> getRuleWeight (requirement r)"
proof -
  obtain wi ci where w: "getRuleWeight (requirement r) = of_int wi / 2"
    and c: "getRuleWeight (requirement r) / 2 = of_int ci / 2"
    and r: "0 \<le> wi" "0 \<le> ci"
    using getRuleWeight_halves by blast
  have w0: "0 \<le> getRuleWeight (requirement r)" unfolding w using r by simp
  show ?thesis
  proof (cases "currentStatus (analyzeRuleCompliance now r md)")
    case compliant
    then have "gap_credit now md r = getRuleWeight (requirement r)"
      by (simp add: gap_credit_def)
    with w r show ?thesis by auto
  next
    case partial
    then have "gap_credit now md r = getRuleWeight (requirement r) / 2"
      by (simp add: gap_credit_def)
    with c r w0 show ?thesis by auto
  next
    case non_compliant
    then have "gap_credit now md r = 0" by (simp add: gap_credit_def)
    with w0 show ?thesis by (intro exI [of _ 0]) simp
  qed
qed

lemma sum_gap_credit:
  "\<exists>a. (\<Sum>r\<leftarrow>rules. gap_credit now md r) = of_int a / 2 \<and> 0 \<le> a \<and>
       (\<Sum>r\<leftarrow>rules. gap_credit now md r) \<le> (\<Sum>r\<leftarrow>rules. getRuleWeight (requirement r))"
proof (induction rules)
  case Nil
  show ?case by (intro exI [of _ 0]) simp
next
  case (Cons r rs)
  then obtain a where a: "(\<Sum>r\<leftarrow>rs. gap_credit now md r) = of_int a / 2" "0 \<le> a"
    and le: "(\<Sum>r\<leftarrow>rs. gap_credit now md r) \<le> (\<Sum>r\<leftarrow>rs. getRuleWeight (requirement r))"
    by blast
  obtain c where c: "gap_credit now md r = of_int c / 2" "0 \<le> c"
    and cle: "gap_credit now md r \<le> getRuleWeight (requirement r)"
    using gap_credit_half by blast
  have "(\<Sum>r\<leftarrow>r # rs. gap_credit now md r) = of_int (c + a) / 2"
    using a c by (simp add: add_divide_distrib)
  moreover have "0 \<le> c + a" using a c by simp
  moreover have "(\<Sum>r\<leftarrow>r # rs. gap_credit now md r) \<le>
      (\<Sum>r\<leftarrow>r # rs. getRuleWeight (requirement r))"
    using le cle by simp
  ultimately show ?case by blast
qed

lemma sum_weights_int:
  "\<exists>b. (\<Sum>r\<leftarrow>rules. getRuleWeight (requirement r)) = of_int b \<and> 0 \<le> b \<and>
       b \<le> 10 * int (length rules)"
proof (induction rules)
  case Nil
  show ?case by (intro exI [of _ 0]) simp
next
  case (Cons r rs)
  then obtain b where b: "(\<Sum>r\<leftarrow>rs. getRuleWeight (requirement r)) = of_int b" "0 \<le> b"
    "b \<le> 10 * int (length rs)"
    by blast
  show ?case
  proof (cases "requirement r")
    case MANDATORY
    with b show ?thesis by (intro exI [of _ "10 + b"]) simp
  next
    case RECOMMENDED
    with b show ?thesis by (intro exI [of _ "5 + b"]) simp
  next
    case OPTIONAL
    with b show ?thesis by (intro exI [of _ "1 + b"]) simp
  qed
qed

lemma Math_round_score_near:
  assumes t: "t = of_int a / 2" and m: "m = of_int b" and a: "0 \<le> a" and b: "0 < b"
    and le: "t \<le> m" and bb: "b \<le> 10 * 2 ^ 32"
  shows "(of_int (Math_round (t / m * 100)) \<noteq> t / m * 100 + 1 / 2 \<longrightarrow>
            Math_round (fmul (fdiv t m) 100) = Math_round (t / m * 100)) \<and>
         (of_int (Math_round (t / m * 100)) = t / m * 100 + 1 / 2 \<longrightarrow>
            Math_round (fmul (fdiv t m) 100) = Math_round (t / m * 100) \<or>
            Math_round (fmul (fdiv t m) 100) = Math_round (t / m * 100) - 1)"
proof -
  define x where "x = t / m * 100"
  define v where "v = fmul (fdiv t m) 100"
  have m0: "0 < m" using m b by simp
  have t0: "0 \<le> t" using t a by simp
  have err: "\<bar>v - x\<bar> \<le> 164 / 2 ^ 53"
    unfolding v_def x_def using t0 le m0 by (rule fmul_fdiv_100_error)
  have D: "0 < 2 * b" using b by simp
  have y: "(x + 1 / 2) * of_int (2 * b) = of_int (100 * a + b)"
    using b by (simp add: x_def t m field_simps)
  have "(of_int (2 * b) :: rat) \<le> of_int (20 * 2 ^ 32)"
    using bb by (simp only: of_int_le_iff)
  then have "(164::rat) / 2 ^ 53 * of_int (2 * b) < 1" by simp
  then have "(164::rat) / 2 ^ 53 < 1 / of_int (2 * b)"
    using D by (simp add: field_simps)
  with err have "\<bar>v - x\<bar> < 1 / of_int (2 * b)" by linarith
  then have near: "\<bar>(v + 1 / 2) - (x + 1 / 2)\<bar> < 1 / of_int (2 * b)" by simp
  from floor_near [OF D y near] show ?thesis
    unfolding Math_round_def x_def v_def .
qed

text \<open>
  Claim C2 gives the score as the rounding of the exact value of
  \<open>totalScore / maxScore * 100\<close>. The quotient and the product are binary64 operations,
  so the score is the rounding of a rounded value. Seven rules with the weights
  10, 5, 1, 1, 1, 1, 1 and the credits 10, 0, 1, 0.5, 0, 0, 0 have a total of 11.5 out of
  20: the exact value is 57.5, which rounds to 58, the product is just below 57.5 and
  the score is 57.
\<close>

theorem performGapAnalysis_rounding_counterexample:
  "overallComplianceScore
     (performGapAnalysis 1700000000000 ''m1''
        \<lparr>businessType = ''ecommerce'', jurisdiction = ''EU'', dataTypes = [''personal_data''],
         currentPolicies = [''privacy_policy''], implementedControls = [''dsar_workflow'']\<rparr>
        [\<lparr>rule_id = ''r1'', regulation = GDPR, rule_category = PRIVACY_POLICY,
          rule_title = ''Policy'', requirement = MANDATORY\<rparr>,
         \<lparr>rule_id = ''r2'', regulation = GDPR, rule_category = CONSENT_MANAGEMENT,
          rule_title = ''Consent'', requirement = RECOMMENDED\<rparr>,
         \<lparr>rule_id = ''r3'', regulation = CCPA, rule_category = PRIVACY_POLICY,
          rule_title = ''Notice'', requirement = OPTIONAL\<rparr>,
         \<lparr>rule_id = ''r4'', regulation = GDPR, rule_category = DATA_SUBJECT_RIGHTS,
          rule_title = ''Rights'', requirement = OPTIONAL\<rparr>,
         \<lparr>rule_id = ''r5'', regulation = GDPR, rule_category = COOKIE_MANAGEMENT,
          rule_title = ''Cookies'', requirement = OPTIONAL\<rparr>,
         \<lparr>rule_id = ''r6'', regulation = CCPA, rule_category = COOKIE_MANAGEMENT,
          rule_title = ''Cookies'', requirement = OPTIONAL\<rparr>,
         \<lparr>rule_id = ''r7'', regulation = PIPEDA, rule_category = COOKIE_MANAGEMENT,
          rule_title = ''Cookies'', requirement = OPTIONAL\<rparr>]) = 57 \<and>
   sum_list (map (gap_credit 1700000000000
        \<lparr>businessType = ''ecommerce'', jurisdiction = ''EU'', dataTypes = [''personal_data''],
         currentPolicies = [''privacy_policy''], implementedControls = [''dsar_workflow'']\<rparr>)
        [\<lparr>rule_id = ''r1'', regulation = GDPR, rule_category = PRIVACY_POLICY,
          rule_title = ''Policy'', requirement = MANDATORY\<rparr>,
         \<lparr>rule_id = ''r2'', regulation = GDPR, rule_category = CONSENT_MANAGEMENT,
          rule_title = ''Consent'', requirement = RECOMMENDED\<rparr>,
         \<lparr>rule_id = ''r3'', regulation = CCPA, rule_category = PRIVACY_POLICY,
          rule_title = ''Notice'', requirement = OPTIONAL\<rparr>,
         \<lparr>rule_id = ''r4'', regulation = GDPR, rule_category = DATA_SUBJECT_RIGHTS,
          rule_title = ''Rights'', requirement = OPTIONAL\<rparr>,
         \<lparr>rule_id = ''r5'', regulation = GDPR, rule_category = COOKIE_MANAGEMENT,
          rule_title = ''Cookies'', requirement = OPTIONAL\<rparr>,
         \<lparr>rule_id = ''r6'', regulation = CCPA, rule_category = COOKIE_MANAGEMENT,
          rule_title = ''Cookies'', requirement = OPTIONAL\<rparr>,
         \<lparr>rule_id = ''r7'', regulation = PIPEDA, rule_category = COOKIE_MANAGEMENT,
          rule_title = ''Cookies'', requirement = OPTIONAL\<rparr>]) = 23 / 2 \<and>
   sum_list (map (getRuleWeight \<circ> requirement)
        [\<lparr>rule_id = ''r1'', regulation = GDPR, rule_category = PRIVACY_POLICY,
          rule_title = ''Policy'', requirement = MANDATORY\<rparr>,
         \<lparr>rule_id = ''r2'', regulation = GDPR, rule_category = CONSENT_MANAGEMENT,
          rule_title = ''Consent'', requirement = RECOMMENDED\<rparr>,
         \<lparr>rule_id = ''r3'', regulation = CCPA, rule_category = PRIVACY_POLICY,
          rule_title = ''Notice'', requirement = OPTIONAL\<rparr>,
         \<lparr>rule_id = ''r4'', regulation = GDPR, rule_category = DATA_SUBJECT_RIGHTS,
          rule_title = ''Rights'', requirement = OPTIONAL\<rparr>,
         \<lparr>rule_id = ''r5'', regulation = GDPR, rule_category = COOKIE_MANAGEMENT,
          rule_title = ''Cookies'', requirement = OPTIONAL\<rparr>,
         \<lparr>rule_id = ''r6'', regulation = CCPA, rule_category = COOKIE_MANAGEMENT,
          rule_title = ''Cookies'', requirement = OPTIONAL\<rparr>,
         \<lparr>rule_id = ''r7'', regulation = PIPEDA, rule_category = COOKIE_MANAGEMENT,
          rule_title = ''Cookies'', requirement = OPTIONAL\<rparr>]) = 20 \<and>
   Math_round (23 / 2 / 20 * 100) = 58"
  by code_simp

lemma score_10_of_11: "Math_round (fmul (fdiv 10 11) 100) = 91"
  by code_simp

lemma sum_weights_nonneg: "0 \<le> (\<Sum>r\<leftarrow>rules. getRuleWeight (requirement r))"
  by (induction rules) (auto intro: add_nonneg_nonneg, case_tac "requirement a", auto)

text \<open>
  Claim C2, amended. For every list of applicable rules (an array, so shorter than
  \<open>2 ^ 32\<close>) and every merchant profile, the loop of \<open>performGapAnalysis\<close> ends with
  \<open>maxScore\<close> equal to the sum of the weights of the rules (mandatory 10, recommended 5,
  optional 1) and \<open>totalScore\<close> equal to the sum of their credits (the weight of a
  compliant rule, half the weight of a partial one, nothing for a non-compliant one).
  \<open>overallComplianceScore\<close> is 100 when \<open>maxScore\<close> is 0, and otherwise
  \<^verbatim>\<open>Math.round\<close> of the binary64 product of the binary64 quotient by 100. That is the
  rounding of the exact value of \<open>totalScore / maxScore * 100\<close> whenever the exact value
  is not halfway between two integers; when it is halfway, the score is one of the two
  integers. One mandatory compliant rule with one optional non-compliant rule gives the
  score 91.
\<close>

theorem performGapAnalysis_overallComplianceScore:
  assumes "length rules < 2 ^ 32"
  shows "getRuleWeight MANDATORY = 10 \<and> getRuleWeight RECOMMENDED = 5 \<and>
         getRuleWeight OPTIONAL = 1 \<and>
         (let maxScore = (\<Sum>r\<leftarrow>rules. getRuleWeight (requirement r));
              totalScore = (\<Sum>r\<leftarrow>rules. gap_credit now md r);
              exact = totalScore / maxScore * 100;
              overall = overallComplianceScore (performGapAnalysis now merchantId md rules)
          in performGapAnalysis_loop now md rules ([], 0, 0) =
               (map (\<lambda>r. analyzeRuleCompliance now r md) rules, totalScore, maxScore) \<and>
             overall =
               (if maxScore = 0 then 100
                else Math_round (fmul (fdiv totalScore maxScore) 100)) \<and>
             (maxScore \<noteq> 0 \<and> of_int (Math_round exact) \<noteq> exact + 1 / 2 \<longrightarrow>
                overall = Math_round exact) \<and>
             (maxScore \<noteq> 0 \<and> of_int (Math_round exact) = exact + 1 / 2 \<longrightarrow>
                overall = Math_round exact \<or> overall = Math_round exact - 1)) \<and>
         (\<forall>r1 r2. rules = [r1, r2] \<and> requirement r1 = MANDATORY \<and>
            currentStatus (analyzeRuleCompliance now r1 md) = gap_status.compliant \<and>
            requirement r2 = OPTIONAL \<and>
            currentStatus (analyzeRuleCompliance now r2 md) = gap_status.non_compliant \<longrightarrow>
            overallComplianceScore (performGapAnalysis now merchantId md rules) = 91)"
proof -
  let ?max = "\<Sum>r\<leftarrow>rules. getRuleWeight (requirement r)"
  let ?total = "\<Sum>r\<leftarrow>rules. gap_credit now md r"
  let ?exact = "?total / ?max * 100"
  let ?overall = "overallComplianceScore (performGapAnalysis now merchantId md rules)"
  have "(10::rat) * of_nat (length rules) < 10 * of_nat (2 ^ 32)"
    using assms by (simp only: mult_less_cancel_left_pos of_nat_less_iff)
  then have bound: "(0::rat) + 10 * of_nat (length rules) < 2 ^ 52" by simp
  have loop: "performGapAnalysis_loop now md rules ([], 0, 0) =
      (map (\<lambda>r. analyzeRuleCompliance now r md) rules, ?total, ?max)"
    using performGapAnalysis_loop_exact [of 0 0 0 0 rules now md "[]"] bound by simp
  have overall: "?overall =
      (if ?max = 0 then 100 else Math_round (fmul (fdiv ?total ?max) 100))"
    using sum_weights_nonneg [of rules] by (auto simp: performGapAnalysis_def loop)
  obtain a where a: "?total = of_int a / 2" "0 \<le> a" and le: "?total \<le> ?max"
    using sum_gap_credit [of now md rules] by blast
  obtain b where b: "?max = of_int b" "0 \<le> b" "b \<le> 10 * int (length rules)"
    using sum_weights_int [of rules] by blast
  have "int (length rules) < 2 ^ 32" using assms by (simp flip: of_nat_less_iff)
  then have bb: "b \<le> 10 * 2 ^ 32" using b(3) by simp
  have near: "(of_int (Math_round ?exact) \<noteq> ?exact + 1 / 2 \<longrightarrow>
            Math_round (fmul (fdiv ?total ?max) 100) = Math_round ?exact) \<and>
         (of_int (Math_round ?exact) = ?exact + 1 / 2 \<longrightarrow>
            Math_round (fmul (fdiv ?total ?max) 100) = Math_round ?exact \<or>
            Math_round (fmul (fdiv ?total ?max) 100) = Math_round ?exact - 1)"
    if "?max \<noteq> 0"
  proof -
    from that have "0 < b" using b by (cases "b = 0") simp_all
    from Math_round_score_near [OF a(1) b(1) a(2) this le bb] show ?thesis .
  qed
  have n1: "?overall = Math_round ?exact"
    if "?max \<noteq> 0" "of_int (Math_round ?exact) \<noteq> ?exact + 1 / 2"
    using near [OF that(1)] that overall by simp
  have n2: "?overall = Math_round ?exact \<or> ?overall = Math_round ?exact - 1"
    if "?max \<noteq> 0" "of_int (Math_round ?exact) = ?exact + 1 / 2"
    using near [OF that(1)] that overall by simp
  have ex: "?overall = 91"
    if "rules = [r1, r2]" "requirement r1 = MANDATORY"
      "currentStatus (analyzeRuleCompliance now r1 md) = gap_status.compliant"
      "requirement r2 = OPTIONAL"
      "currentStatus (analyzeRuleCompliance now r2 md) = gap_status.non_compliant"
    for r1 r2
    unfolding overall using that by (simp add: gap_credit_def score_10_of_11)
  have c3: "?max \<noteq> 0 \<and> of_int (Math_round ?exact) \<noteq> ?exact + 1 / 2 \<longrightarrow>
      ?overall = Math_round ?exact"
    using n1 by blast
  have c4: "?max \<noteq> 0 \<and> of_int (Math_round ?exact) = ?exact + 1 / 2 \<longrightarrow>
      ?overall = Math_round ?exact \<or> ?overall = Math_round ?exact - 1"
    using n2 by blast
  have c5: "\<forall>r1 r2. rules = [r1, r2] \<and> requirement r1 = MANDATORY \<and>
            currentStatus (analyzeRuleCompliance now r1 md) = gap_status.compliant \<and>
            requirement r2 = OPTIONAL \<and>
            currentStatus (analyzeRuleCompliance now r2 md) = gap_status.non_compliant \<longrightarrow>
            ?overall = 91"
    using ex by blast
  show ?thesis
    unfolding Let_def
    by (intro conjI) (simp, simp, simp, rule loop, rule overall, rule c3, rule c4, rule c5)
qed

theorem performGapAnalysis_overallComplianceScore_witness:
  "length [\<lparr>rule_id = ''r1'', regulation = GDPR, rule_category = PRIVACY_POLICY,
             rule_title = ''Privacy Policy Publication'', requirement = MANDATORY\<rparr>,
           \<lparr>rule_id = ''r2'', regulation = GDPR, rule_category = CONSENT_MANAGEMENT,
             rule_title = ''Consent records'', requirement = OPTIONAL\<rparr>] < (2::nat) ^ 32 \<and>
   overallComplianceScore
     (performGapAnalysis 1700000000000 ''m1''
        \<lparr>businessType = ''ecommerce'', jurisdiction = ''EU'', dataTypes = [''personal_data''],
         currentPolicies = [''privacy_policy''], implementedControls = []\<rparr>
        [\<lparr>rule_id = ''r1'', regulation = GDPR, rule_category = PRIVACY_POLICY,
          rule_title = ''Privacy Policy Publication'', requirement = MANDATORY\<rparr>,
         \<lparr>rule_id = ''r2'', regulation = GDPR, rule_category = CONSENT_MANAGEMENT,
          rule_title = ''Consent records'', requirement = OPTIONAL\<rparr>]) = 91"
proof -
  have len: "length [\<lparr>rule_id = ''r1'', regulation = GDPR, rule_category = PRIVACY_POLICY,
             rule_title = ''Privacy Policy Publication'', requirement = MANDATORY\<rparr>,
           \<lparr>rule_id = ''r2'', regulation = GDPR, rule_category = CONSENT_MANAGEMENT,
             rule_title = ''Consent records'', requirement = OPTIONAL\<rparr>] < (2::nat) ^ 32"
    by simp
  show ?thesis
    using len performGapAnalysis_overallComplianceScore [OF len, of 1700000000000
        "\<lparr>businessType = ''ecommerce'', jurisdiction = ''EU'', dataTypes = [''personal_data''],
         currentPolicies = [''privacy_policy''], implementedControls = []\<rparr>" "''m1''"]
    by (simp add: analyzeRuleCompliance_def analyzeRuleCompliance_base_def)
qed


text \<open>
  Claim C4. For a mandatory rule whose status is \<open>non_compliant\<close>,
  \<open>analyzeRuleCompliance\<close> reports the risk level one step above the level of the
  category switch on the scale low, medium, high, critical, and critical stays critical.
  The same rule with another requirement level reports the level of the switch itself,
  which is never above the level reported for the mandatory rule.
\<close>

theorem analyzeRuleCompliance_escalation:
  assumes "requirement rl = MANDATORY"
    and "currentStatus (analyzeRuleCompliance now rl md) = gap_status.non_compliant"
  shows "(let base = fst (snd (analyzeRuleCompliance_base rl md));
              reported = riskLevel (analyzeRuleCompliance now rl md)
          in (base = severity.low \<longrightarrow> reported = severity.medium) \<and>
             (base = severity.medium \<longrightarrow> reported = severity.high) \<and>
             (base = severity.high \<longrightarrow> reported = severity.critical) \<and>
             (base = severity.critical \<longrightarrow> reported = severity.critical) \<and>
             getRiskScore reported = min 4 (getRiskScore base + 1) \<and>
             (\<forall>req. req \<noteq> MANDATORY \<longrightarrow>
                riskLevel (analyzeRuleCompliance now (rl\<lparr>requirement := req\<rparr>) md) = base \<and>
                currentStatus (analyzeRuleCompliance now (rl\<lparr>requirement := req\<rparr>) md) =
                  gap_status.non_compliant \<and>
                getRiskScore base \<le> getRiskScore reported))"
proof -
  obtain st risk action where b: "analyzeRuleCompliance_base rl md = (st, risk, action)"
    by (cases "analyzeRuleCompliance_base rl md") auto
  have "analyzeRuleCompliance_base (rl\<lparr>requirement := req\<rparr>) md =
        analyzeRuleCompliance_base rl md" for req
    by (cases "rule_category rl") (simp_all add: analyzeRuleCompliance_base_def)
  then have b': "analyzeRuleCompliance_base (rl\<lparr>requirement := req\<rparr>) md = (st, risk, action)"
    for req
    using b by simp
  have st: "st = gap_status.non_compliant"
    using assms(2) by (simp add: analyzeRuleCompliance_def b)
  show ?thesis
    using assms(1) st
    by (cases risk) (simp_all add: analyzeRuleCompliance_def b b' Let_def)
qed

theorem analyzeRuleCompliance_escalation_witness:
  "requirement \<lparr>rule_id = ''r3'', regulation = GDPR, rule_category = COOKIE_MANAGEMENT,
      rule_title = ''Cookie consent'', requirement = MANDATORY\<rparr> = MANDATORY \<and>
   currentStatus (analyzeRuleCompliance 1700000000000
      \<lparr>rule_id = ''r3'', regulation = GDPR, rule_category = COOKIE_MANAGEMENT,
       rule_title = ''Cookie consent'', requirement = MANDATORY\<rparr>
      \<lparr>businessType = ''ecommerce'', jurisdiction = ''EU'', dataTypes = [],
       currentPolicies = [], implementedControls = []\<rparr>) = gap_status.non_compliant \<and>
   riskLevel (analyzeRuleCompliance 1700000000000
      \<lparr>rule_id = ''r3'', regulation = GDPR, rule_category = COOKIE_MANAGEMENT,
       rule_title = ''Cookie consent'', requirement = MANDATORY\<rparr>
      \<lparr>businessType = ''ecommerce'', jurisdiction = ''EU'', dataTypes = [],
       currentPolicies = [], implementedControls = []\<rparr>) = severity.high \<and>
   riskLevel (analyzeRuleCompliance 1700000000000
      \<lparr>rule_id = ''r3'', regulation = GDPR, rule_category = COOKIE_MANAGEMENT,
       rule_title = ''Cookie consent'', requirement = RECOMMENDED\<rparr>
      \<lparr>businessType = ''ecommerce'', jurisdiction = ''EU'', dataTypes = [],
       currentPolicies = [], implementedControls = []\<rparr>) = severity.medium"
proof -
  let ?rl = "\<lparr>rule_id = ''r3'', regulation = GDPR, rule_category = COOKIE_MANAGEMENT,
      rule_title = ''Cookie consent'', requirement = MANDATORY\<rparr>"
  let ?md = "\<lparr>businessType = ''ecommerce'', jurisdiction = ''EU'', dataTypes = [],
       currentPolicies = [], implementedControls = []\<rparr>"
  have m: "requirement ?rl = MANDATORY" by simp
  have s: "currentStatus (analyzeRuleCompliance 1700000000000 ?rl ?md) = gap_status.non_compliant"
    by (simp add: analyzeRuleCompliance_def analyzeRuleCompliance_base_def)
  have base: "fst (snd (analyzeRuleCompliance_base ?rl ?md)) = severity.medium"
    by (simp add: analyzeRuleCompliance_base_def)
  from analyzeRuleCompliance_escalation [OF m s]
  have "riskLevel (analyzeRuleCompliance 1700000000000 ?rl ?md) = severity.high \<and>
        riskLevel (analyzeRuleCompliance 1700000000000 (?rl\<lparr>requirement := RECOMMENDED\<rparr>) ?md)
          = severity.medium"
    unfolding Let_def base by simp
  with m s show ?thesis by simp
qed

lemma insert_sorted_critical:
  "riskLevel g = severity.critical \<Longrightarrow>
   insert_sorted (\<lambda>a b. getRiskScore (riskLevel b) - getRiskScore (riskLevel a)) g ys = g # ys"
  by (cases ys; cases "riskLevel (hd ys)") auto

lemma insert_sorted_high:
  assumes "\<forall>y \<in> set cs. riskLevel y = severity.critical"
    and "\<forall>y \<in> set hs. riskLevel y = severity.high" and "riskLevel g = severity.high"
  shows "insert_sorted (\<lambda>a b. getRiskScore (riskLevel b) - getRiskScore (riskLevel a)) g (cs @ hs)
         = cs @ g # hs"
  using assms by (induction cs) (cases hs, auto)

lemma Array_sort_critical_high:
  assumes "\<forall>g \<in> set xs. riskLevel g = severity.critical \<or> riskLevel g = severity.high"
  shows "Array_sort (\<lambda>a b. getRiskScore (riskLevel b) - getRiskScore (riskLevel a)) xs =
         filter (\<lambda>g. riskLevel g = severity.critical) xs @
         filter (\<lambda>g. riskLevel g = severity.high) xs"
  using assms
proof (induction xs)
  case Nil
  then show ?case by (simp add: Array_sort_def)
next
  case (Cons g xs)
  then have IH: "foldr (insert_sorted (\<lambda>a b. getRiskScore (riskLevel b) - getRiskScore (riskLevel a))) xs [] =
         filter (\<lambda>g. riskLevel g = severity.critical) xs @
         filter (\<lambda>g. riskLevel g = severity.high) xs"
    by (simp add: Array_sort_def)
  from Cons.prems consider "riskLevel g = severity.critical" | "riskLevel g = severity.high"
    by auto
  then show ?case
  proof cases
    case 1
    then show ?thesis by (simp add: Array_sort_def IH insert_sorted_critical)
  next
    case 2
    then show ?thesis
      by (simp add: Array_sort_def IH insert_sorted_high)
  qed
qed

lemma priorityGaps_eq:
  "priorityGaps gs =
     take 5 (filter (\<lambda>g. riskLevel g = severity.critical) gs @
             filter (\<lambda>g. riskLevel g = severity.high) gs)"
proof -
  let ?hc = "filter (\<lambda>gap. riskLevel gap = severity.critical \<or> riskLevel gap = severity.high) gs"
  have "Array_sort (\<lambda>a b. getRiskScore (riskLevel b) - getRiskScore (riskLevel a)) ?hc =
         filter (\<lambda>g. riskLevel g = severity.critical) ?hc @
         filter (\<lambda>g. riskLevel g = severity.high) ?hc"
    by (rule Array_sort_critical_high) simp
  also have "filter (\<lambda>g. riskLevel g = severity.critical) ?hc =
             filter (\<lambda>g. riskLevel g = severity.critical) gs"
    by (simp add: conj_commute cong: conj_cong) 
  also have "filter (\<lambda>g. riskLevel g = severity.high) ?hc =
             filter (\<lambda>g. riskLevel g = severity.high) gs"
    by (induction gs) auto
  finally show ?thesis by (simp add: priorityGaps_def)
qed


lemma performGapAnalysis_loop_gaps:
  "fst (performGapAnalysis_loop now md rules (gs, t, m)) =
     gs @ map (\<lambda>r. analyzeRuleCompliance now r md) rules"
  by (induction rules arbitrary: gs t m) (simp_all add: Let_def)

lemma performGapAnalysis_gaps:
  "gaps (performGapAnalysis now merchantId md rules) =
     map (\<lambda>r. analyzeRuleCompliance now r md) rules"
  using performGapAnalysis_loop_gaps [of now md rules "[]" 0 0]
  by (cases "performGapAnalysis_loop now md rules ([], 0, 0)")
    (simp add: performGapAnalysis_def)

lemma priorityActions_of_gaps:
  "priorityActions (performGapAnalysis now merchantId md rules) =
     map actionRequired (priorityGaps (gaps (performGapAnalysis now merchantId md rules)))"
  by (cases "performGapAnalysis_loop now md rules ([], 0, 0)")
    (simp add: performGapAnalysis_def)

lemma sorted_wrt_critical_high:
  "sorted_wrt (\<lambda>a b. getRiskScore (riskLevel b) \<le> getRiskScore (riskLevel a))
     (filter (\<lambda>g. riskLevel g = severity.critical) gs @
      filter (\<lambda>g. riskLevel g = severity.high) gs)"
proof -
  have same: "sorted_wrt (\<lambda>a b. getRiskScore (riskLevel b) \<le> getRiskScore (riskLevel a))
                (filter (\<lambda>g. riskLevel g = l) gs)" for l
    by (induction gs) auto
  show ?thesis by (auto simp: sorted_wrt_append same)
qed

text \<open>
  Claim C5. The priority actions of \<open>performGapAnalysis\<close> are the actions of the
  selected gaps, in their order. At most five gaps are selected; each is a gap of the
  analysis with risk level high or critical; they are ordered by descending risk rank;
  they are the first five of the critical gaps followed by the high gaps, each group in
  the order of the gap list (equal ranks keep their order); and nothing is selected when
  no gap is high or critical.
\<close>

theorem performGapAnalysis_priorityActions:
  "(let res = performGapAnalysis now merchantId md rules;
        sel = priorityGaps (gaps res)
    in priorityActions res = map actionRequired sel \<and>
       length (priorityActions res) \<le> 5 \<and>
       (\<forall>g \<in> set sel. g \<in> set (gaps res) \<and>
          (riskLevel g = severity.high \<or> riskLevel g = severity.critical)) \<and>
       sorted_wrt (\<lambda>a b. getRiskScore (riskLevel b) \<le> getRiskScore (riskLevel a)) sel \<and>
       sel = take 5 (filter (\<lambda>g. riskLevel g = severity.critical) (gaps res) @
                     filter (\<lambda>g. riskLevel g = severity.high) (gaps res)) \<and>
       ((\<forall>g \<in> set (gaps res). riskLevel g \<noteq> severity.high \<and> riskLevel g \<noteq> severity.critical)
          \<longrightarrow> priorityActions res = []))"
proof -
  let ?res = "performGapAnalysis now merchantId md rules"
  let ?sel = "priorityGaps (gaps ?res)"
  let ?ch = "filter (\<lambda>g. riskLevel g = severity.critical) (gaps ?res) @
             filter (\<lambda>g. riskLevel g = severity.high) (gaps ?res)"
  have pa: "priorityActions ?res = map actionRequired ?sel"
    by (rule priorityActions_of_gaps)
  have sel: "?sel = take 5 ?ch" by (rule priorityGaps_eq)
  have len: "length (priorityActions ?res) \<le> 5" unfolding pa sel by simp
  have mem: "\<forall>g \<in> set ?sel. g \<in> set (gaps ?res) \<and>
          (riskLevel g = severity.high \<or> riskLevel g = severity.critical)"
  proof
    fix g assume "g \<in> set ?sel"
    then have "g \<in> set ?ch" unfolding sel by (rule in_set_takeD)
    then show "g \<in> set (gaps ?res) \<and>
          (riskLevel g = severity.high \<or> riskLevel g = severity.critical)"
      by auto
  qed
  have srt: "sorted_wrt (\<lambda>a b. getRiskScore (riskLevel b) \<le> getRiskScore (riskLevel a)) ?sel"
    unfolding sel by (rule sorted_wrt_take) (rule sorted_wrt_critical_high)
  have emp: "priorityActions ?res = []"
    if "\<forall>g \<in> set (gaps ?res). riskLevel g \<noteq> severity.high \<and> riskLevel g \<noteq> severity.critical"
  proof -
    from that have "?ch = []" by (simp add: filter_empty_conv)
    then show ?thesis unfolding pa sel by simp
  qed
  show ?thesis unfolding Let_def using pa len mem srt sel emp by blast
qed

theorem performGapAnalysis_priorityActions_witness:
  "priorityActions
     (performGapAnalysis 1700000000000 ''m1''
        \<lparr>businessType = ''ecommerce'', jurisdiction = ''EU'', dataTypes = [],
         currentPolicies = [], implementedControls = []\<rparr>
        [\<lparr>rule_id = ''a'', regulation = GDPR, rule_category = CONSENT_MANAGEMENT,
          rule_title = ''Consent'', requirement = RECOMMENDED\<rparr>,
         \<lparr>rule_id = ''b'', regulation = GDPR, rule_category = PRIVACY_POLICY,
          rule_title = ''Policy'', requirement = RECOMMENDED\<rparr>,
         \<lparr>rule_id = ''c'', regulation = GDPR, rule_category = DATA_SUBJECT_RIGHTS,
          rule_title = ''Rights'', requirement = RECOMMENDED\<rparr>,
         \<lparr>rule_id = ''d'', regulation = GDPR, rule_category = COOKIE_MANAGEMENT,
          rule_title = ''Cookies'', requirement = RECOMMENDED\<rparr>]) =
   [''Create and publish privacy policy immediately'',
    ''Implement consent management system'',
    ''Implement data subject rights management'']"
  using performGapAnalysis_priorityActions [of 1700000000000 "''m1''"
        "\<lparr>businessType = ''ecommerce'', jurisdiction = ''EU'', dataTypes = [],
         currentPolicies = [], implementedControls = []\<rparr>"
        "[\<lparr>rule_id = ''a'', regulation = GDPR, rule_category = CONSENT_MANAGEMENT,
          rule_title = ''Consent'', requirement = RECOMMENDED\<rparr>,
         \<lparr>rule_id = ''b'', regulation = GDPR, rule_category = PRIVACY_POLICY,
          rule_title = ''Policy'', requirement = RECOMMENDED\<rparr>,
         \<lparr>rule_id = ''c'', regulation = GDPR, rule_category = DATA_SUBJECT_RIGHTS,
          rule_title = ''Rights'', requirement = RECOMMENDED\<rparr>,
         \<lparr>rule_id = ''d'', regulation = GDPR, rule_category = COOKIE_MANAGEMENT,
          rule_title = ''Cookies'', requirement = RECOMMENDED\<rparr>]"]
  by (simp add: Let_def performGapAnalysis_gaps analyzeRuleCompliance_def
      analyzeRuleCompliance_base_def)


section \<open>The third-party app risk model\<close>

lemma analyzeDataAccessRisk_scores:
  "part_score (analyzeDataAccessRisk app) \<in> {0, 40, 60, 80, 100, 120}"
  by (simp add: analyzeDataAccessRisk_def split: option.splits list.splits)

lemma analyzePermissionRisk_scores:
  "part_score (analyzePermissionRisk app) \<in> {0, 40, 70}"
  by (simp add: analyzePermissionRisk_def Let_def)

lemma analyzeComplianceRisk_scores:
  "part_score (analyzeComplianceRisk app) \<in> {0, 30, 60, 90}"
  by (simp add: analyzeComplianceRisk_def)

lemma analyzeSecurityRisk_scores:
  "part_score (analyzeSecurityRisk app) \<in> {0, 30}"
  by (simp add: analyzeSecurityRisk_def)

lemma analyzeReputationRisk_scores:
  "part_score (analyzeReputationRisk app) \<in> {0, 40}"
  by (simp add: analyzeReputationRisk_def)

lemma fmul_zero: "fmul 0 w = 0"
  by (simp add: fmul_def fl_def)
lemma fmul_dataAccess_40: "fmul 40 (w_dataAccess riskWeights) = 12"
  by code_simp
lemma fmul_dataAccess_60: "fmul 60 (w_dataAccess riskWeights) = 18"
  by code_simp
lemma fmul_dataAccess_80: "fmul 80 (w_dataAccess riskWeights) = 24"
  by code_simp
lemma fmul_dataAccess_100: "fmul 100 (w_dataAccess riskWeights) = 30"
  by code_simp
lemma fmul_dataAccess_120: "fmul 120 (w_dataAccess riskWeights) = 36"
  by code_simp
lemma fmul_permissions_40: "fmul 40 (w_permissions riskWeights) = 10"
  by code_simp
lemma fmul_permissions_70: "fmul 70 (w_permissions riskWeights) = 35 / 2"
  by code_simp
lemma fmul_compliance_30: "fmul 30 (w_compliance riskWeights) = 6"
  by code_simp
lemma fmul_compliance_60: "fmul 60 (w_compliance riskWeights) = 12"
  by code_simp
lemma fmul_compliance_90: "fmul 90 (w_compliance riskWeights) = 18"
  by code_simp
lemma fmul_security_30: "fmul 30 (w_security riskWeights) = 9 / 2"
  by code_simp
lemma fmul_reputation_40: "fmul 40 (w_reputation riskWeights) = 4"
  by code_simp


lemma dataAccess_product:
  "fmul (part_score (analyzeDataAccessRisk app)) (w_dataAccess riskWeights) =
     part_score (analyzeDataAccessRisk app) * (3 / 10) \<and>
   half_int (part_score (analyzeDataAccessRisk app) * (3 / 10)) \<and>
   0 \<le> part_score (analyzeDataAccessRisk app) \<and> part_score (analyzeDataAccessRisk app) \<le> 120"
  using analyzeDataAccessRisk_scores [of app]
  by (auto simp: fmul_zero fmul_dataAccess_40 fmul_dataAccess_60 fmul_dataAccess_80
      fmul_dataAccess_100 fmul_dataAccess_120 half_int_iff)

lemma permission_product:
  "fmul (part_score (analyzePermissionRisk app)) (w_permissions riskWeights) =
     part_score (analyzePermissionRisk app) * (1 / 4) \<and>
   half_int (part_score (analyzePermissionRisk app) * (1 / 4)) \<and>
   0 \<le> part_score (analyzePermissionRisk app) \<and> part_score (analyzePermissionRisk app) \<le> 70"
  using analyzePermissionRisk_scores [of app]
  by (auto simp: fmul_zero fmul_permissions_40 fmul_permissions_70 half_int_iff)

lemma compliance_product:
  "fmul (part_score (analyzeComplianceRisk app)) (w_compliance riskWeights) =
     part_score (analyzeComplianceRisk app) * (1 / 5) \<and>
   half_int (part_score (analyzeComplianceRisk app) * (1 / 5)) \<and>
   0 \<le> part_score (analyzeComplianceRisk app) \<and> part_score (analyzeComplianceRisk app) \<le> 90"
  using analyzeComplianceRisk_scores [of app]
  by (auto simp: fmul_zero fmul_compliance_30 fmul_compliance_60 fmul_compliance_90 half_int_iff)

lemma security_product:
  "fmul (part_score (analyzeSecurityRisk app)) (w_security riskWeights) =
     part_score (analyzeSecurityRisk app) * (3 / 20) \<and>
   half_int (part_score (analyzeSecurityRisk app) * (3 / 20)) \<and>
   0 \<le> part_score (analyzeSecurityRisk app) \<and> part_score (analyzeSecurityRisk app) \<le> 30"
  using analyzeSecurityRisk_scores [of app]
  by (auto simp: fmul_zero fmul_security_30 half_int_iff)

lemma reputation_product:
  "fmul (part_score (analyzeReputationRisk app)) (w_reputation riskWeights) =
     part_score (analyzeReputationRisk app) * (1 / 10) \<and>
   half_int (part_score (analyzeReputationRisk app) * (1 / 10)) \<and>
   0 \<le> part_score (analyzeReputationRisk app) \<and> part_score (analyzeReputationRisk app) \<le> 40"
  using analyzeReputationRisk_scores [of app]
  by (auto simp: fmul_zero fmul_reputation_40 half_int_iff)

lemma weightedRiskScore_exact: "weightedRiskScore app = exactWeightedSum app"
proof -
  let ?x1 = "part_score (analyzeDataAccessRisk app) * (3 / 10)"
  let ?x2 = "part_score (analyzePermissionRisk app) * (1 / 4)"
  let ?x3 = "part_score (analyzeComplianceRisk app) * (1 / 5)"
  let ?x4 = "part_score (analyzeSecurityRisk app) * (3 / 20)"
  let ?x5 = "part_score (analyzeReputationRisk app) * (1 / 10)"
  note d = dataAccess_product [of app] and p = permission_product [of app]
    and c = compliance_product [of app] and s = security_product [of app]
    and r = reputation_product [of app]
  have h0: "half_int 0" by (simp add: half_int_iff)
  have e1: "fadd 0 ?x1 = ?x1"
    using fadd_half_int [OF h0, of ?x1] d by simp
  have h2: "half_int (?x1 + ?x2)" using d p by (simp add: half_int_add)
  have e2: "fadd ?x1 ?x2 = ?x1 + ?x2"
    using fadd_half_int [of ?x1 ?x2] d p by simp
  have h3: "half_int (?x1 + ?x2 + ?x3)" using h2 c by (simp add: half_int_add)
  have e3: "fadd (?x1 + ?x2) ?x3 = ?x1 + ?x2 + ?x3"
    using fadd_half_int [OF h2, of ?x3] d p c by simp
  have h4: "half_int (?x1 + ?x2 + ?x3 + ?x4)" using h3 s by (simp add: half_int_add)
  have e4: "fadd (?x1 + ?x2 + ?x3) ?x4 = ?x1 + ?x2 + ?x3 + ?x4"
    using fadd_half_int [OF h3, of ?x4] d p c s by simp
  have e5: "fadd (?x1 + ?x2 + ?x3 + ?x4) ?x5 = ?x1 + ?x2 + ?x3 + ?x4 + ?x5"
    using fadd_half_int [OF h4, of ?x5] d p c s r by simp
  have "weightedRiskScore app = ?x1 + ?x2 + ?x3 + ?x4 + ?x5"
    unfolding weightedRiskScore_def Let_def
    by (simp only: d p c s r e1 e2 e3 e4 e5)
  then show ?thesis by (simp add: exactWeightedSum_def)
qed


lemma analyzeAppRisk_riskScore:
  "analysis_riskScore (analyzeAppRisk app) = min 100 (max 0 (Math_round (exactWeightedSum app)))"
  by (simp add: analyzeAppRisk_def weightedRiskScore_exact Let_def)

lemma analyzeAppRisk_riskLevel:
  "analysis_riskLevel (analyzeAppRisk app) =
     calculateRiskLevel (analysis_riskScore (analyzeAppRisk app))"
  by (simp add: analyzeAppRisk_def Let_def)

text \<open>
  Claim C3 gives 55 as a score of risk level high. The score 55 is below the threshold 60
  of high and at least the threshold 40 of medium: its level is medium.
\<close>

theorem calculateRiskLevel_55_counterexample:
  "calculateRiskLevel 55 = RiskLevel.MEDIUM \<and> calculateRiskLevel 55 \<noteq> RiskLevel.HIGH"
  by (simp add: calculateRiskLevel_def)

text \<open>
  Claim C3, amended. For every app the risk score of \<open>analyzeAppRisk\<close> is the nearest
  integer of the weighted sum of the five sub-scores, with the weights 0.30 for data
  access, 0.25 for permissions, 0.20 for compliance, 0.15 for security and 0.10 for
  reputation, clamped to the interval from 0 to 100 (the binary64 computation of the
  source gives exactly this value). The risk level is \<open>calculateRiskLevel\<close> of that
  score: critical from 80, high from 60, medium from 40, low below 40. So 85 is
  critical, 55 and 45 are medium, 10 is low.
\<close>

theorem analyzeAppRisk_score_and_level:
  "analysis_riskScore (analyzeAppRisk app) =
     min 100 (max 0 (Math_round
       (part_score (analyzeDataAccessRisk app) * (30 / 100) +
        part_score (analyzePermissionRisk app) * (25 / 100) +
        part_score (analyzeComplianceRisk app) * (20 / 100) +
        part_score (analyzeSecurityRisk app) * (15 / 100) +
        part_score (analyzeReputationRisk app) * (10 / 100)))) \<and>
   analysis_riskLevel (analyzeAppRisk app) =
     calculateRiskLevel (analysis_riskScore (analyzeAppRisk app)) \<and>
   (calculateRiskLevel sc = RiskLevel.CRITICAL \<longleftrightarrow> 80 \<le> sc) \<and>
   (calculateRiskLevel sc = RiskLevel.HIGH \<longleftrightarrow> 60 \<le> sc \<and> sc < 80) \<and>
   (calculateRiskLevel sc = RiskLevel.MEDIUM \<longleftrightarrow> 40 \<le> sc \<and> sc < 60) \<and>
   (calculateRiskLevel sc = RiskLevel.LOW \<longleftrightarrow> sc < 40) \<and>
   calculateRiskLevel 85 = RiskLevel.CRITICAL \<and> calculateRiskLevel 55 = RiskLevel.MEDIUM \<and>
   calculateRiskLevel 45 = RiskLevel.MEDIUM \<and> calculateRiskLevel 10 = RiskLevel.LOW"
  using analyzeAppRisk_riskScore [of app] analyzeAppRisk_riskLevel [of app]
  by (simp add: calculateRiskLevel_def exactWeightedSum_def)

theorem analyzeAppRisk_score_and_level_witness:
  "analysis_riskScore (analyzeAppRisk
     \<lparr>appId = ''app_456'', appName = ''Mailchimp Email Marketing'',
      developer = Some ''Mailchimp'',
      permissions = Some \<lparr>scopes = [''read_customers'', ''write_customers'', ''read_orders'']\<rparr>,
      dataAccessLevel = READ_WRITE, app_riskLevel = RiskLevel.MEDIUM, app_riskScore = 50,
      riskFactors = Some \<lparr>app_dataTypes = Some [''personal_data'', ''contact_information'',
                                                 ''transaction_data'', ''payment_information''],
                          encryptionStatus = ''unknown'',
                          privacyPolicyUrl = Some ''https://mailchimp.com/legal/privacy/'',
                          dataRetentionPeriod = Some ''unknown''\<rparr>,
      complianceIssues = None, lastRiskAssessment = None\<rparr>) = 51 \<and>
   analysis_riskLevel (analyzeAppRisk
     \<lparr>appId = ''app_456'', appName = ''Mailchimp Email Marketing'',
      developer = Some ''Mailchimp'',
      permissions = Some \<lparr>scopes = [''read_customers'', ''write_customers'', ''read_orders'']\<rparr>,
      dataAccessLevel = READ_WRITE, app_riskLevel = RiskLevel.MEDIUM, app_riskScore = 50,
      riskFactors = Some \<lparr>app_dataTypes = Some [''personal_data'', ''contact_information'',
                                                 ''transaction_data'', ''payment_information''],
                          encryptionStatus = ''unknown'',
                          privacyPolicyUrl = Some ''https://mailchimp.com/legal/privacy/'',
                          dataRetentionPeriod = Some ''unknown''\<rparr>,
      complianceIssues = None, lastRiskAssessment = None\<rparr>) = RiskLevel.MEDIUM"
proof -
  let ?app = "\<lparr>appId = ''app_456'', appName = ''Mailchimp Email Marketing'',
      developer = Some ''Mailchimp'',
      permissions = Some \<lparr>scopes = [''read_customers'', ''write_customers'', ''read_orders'']\<rparr>,
      dataAccessLevel = READ_WRITE, app_riskLevel = RiskLevel.MEDIUM, app_riskScore = 50,
      riskFactors = Some \<lparr>app_dataTypes = Some [''personal_data'', ''contact_information'',
                                                 ''transaction_data'', ''payment_information''],
                          encryptionStatus = ''unknown'',
                          privacyPolicyUrl = Some ''https://mailchimp.com/legal/privacy/'',
                          dataRetentionPeriod = Some ''unknown''\<rparr>,
      complianceIssues = None, lastRiskAssessment = None\<rparr>"
  have d: "part_score (analyzeDataAccessRisk ?app) = 100" by code_simp
  have p: "part_score (analyzePermissionRisk ?app) = 40" by code_simp
  have c: "part_score (analyzeComplianceRisk ?app) = 30" by code_simp
  have s: "part_score (analyzeSecurityRisk ?app) = 30" by code_simp
  have r: "part_score (analyzeReputationRisk ?app) = 0" by code_simp
  have m: "Math_round (101 / 2) = 51" by code_simp
  show ?thesis
    using analyzeAppRisk_score_and_level [of ?app 51] by (simp add: d p c s r m)
qed

lemma exactWeightedSum_bounds:
  "0 \<le> exactWeightedSum app \<and> exactWeightedSum app \<le> 80"
  using dataAccess_product [of app] permission_product [of app] compliance_product [of app]
    security_product [of app] reputation_product [of app]
  by (simp add: exactWeightedSum_def)

lemma exactWeightedSum_top:
  "79 < exactWeightedSum app \<longleftrightarrow>
     part_score (analyzeDataAccessRisk app) = 120 \<and>
     part_score (analyzePermissionRisk app) = 70 \<and>
     part_score (analyzeComplianceRisk app) = 90 \<and>
     part_score (analyzeSecurityRisk app) = 30 \<and>
     part_score (analyzeReputationRisk app) = 40"
proof -
  have d: "part_score (analyzeDataAccessRisk app) = 120 \<or>
           part_score (analyzeDataAccessRisk app) \<le> 100"
    using analyzeDataAccessRisk_scores [of app] by auto
  have p: "part_score (analyzePermissionRisk app) = 70 \<or>
           part_score (analyzePermissionRisk app) \<le> 40"
    using analyzePermissionRisk_scores [of app] by auto
  have c: "part_score (analyzeComplianceRisk app) = 90 \<or>
           part_score (analyzeComplianceRisk app) \<le> 60"
    using analyzeComplianceRisk_scores [of app] by auto
  have s: "part_score (analyzeSecurityRisk app) = 30 \<or>
           part_score (analyzeSecurityRisk app) \<le> 0"
    using analyzeSecurityRisk_scores [of app] by auto
  have r: "part_score (analyzeReputationRisk app) = 40 \<or>
           part_score (analyzeReputationRisk app) \<le> 0"
    using analyzeReputationRisk_scores [of app] by auto
  note b = dataAccess_product [of app] permission_product [of app] compliance_product [of app]
    security_product [of app] reputation_product [of app]
  show ?thesis
    using d p c s r b unfolding exactWeightedSum_def by (elim disjE) auto
qed

text \<open>
  Claim C10. The risk score of \<open>analyzeAppRisk\<close> never exceeds 80. The weighted sum is at
  most 120 * 0.30 + 70 * 0.25 + 90 * 0.20 + 30 * 0.15 + 40 * 0.10 = 80, so the score is the
  rounded weighted sum itself and the clamp at 100 does not bind. The risk level is
  critical exactly when the score is 80, and the score is 80 exactly when all five
  sub-scores have their largest value.
\<close>

theorem analyzeAppRisk_score_at_most_80:
  "analysis_riskScore (analyzeAppRisk app) \<le> 80 \<and>
   analysis_riskScore (analyzeAppRisk app) = Math_round (weightedRiskScore app) \<and>
   weightedRiskScore app \<le>
     120 * (30 / 100) + 70 * (25 / 100) + 90 * (20 / 100) + 30 * (15 / 100) + 40 * (10 / 100) \<and>
   120 * (30 / 100) + 70 * (25 / 100) + 90 * (20 / 100) + 30 * (15 / 100) + 40 * (10 / 100) =
     (80 :: rat) \<and>
   (analysis_riskLevel (analyzeAppRisk app) = RiskLevel.CRITICAL \<longleftrightarrow>
      analysis_riskScore (analyzeAppRisk app) = 80) \<and>
   (analysis_riskScore (analyzeAppRisk app) = 80 \<longleftrightarrow>
      part_score (analyzeDataAccessRisk app) = 120 \<and>
      part_score (analyzePermissionRisk app) = 70 \<and>
      part_score (analyzeComplianceRisk app) = 90 \<and>
      part_score (analyzeSecurityRisk app) = 30 \<and>
      part_score (analyzeReputationRisk app) = 40)"
proof -
  let ?x = "exactWeightedSum app"
  note w = weightedRiskScore_exact [of app]
  note b = exactWeightedSum_bounds [of app]
  have r0: "0 \<le> Math_round ?x" using b by (simp add: Math_round_def)
  have r80: "Math_round ?x \<le> 80" using b by (simp add: Math_round_def floor_le_iff)
  have sc: "analysis_riskScore (analyzeAppRisk app) = Math_round ?x"
    using r0 r80 by (simp add: analyzeAppRisk_riskScore)
  have top: "Math_round ?x = 80 \<longleftrightarrow> 79 < ?x"
  proof
    assume "Math_round ?x = 80"
    then have "80 \<le> \<lfloor>?x + 1 / 2\<rfloor>" by (simp add: Math_round_def)
    then have "80 \<le> ?x + 1 / 2" by (simp only: le_floor_iff)
    then show "79 < ?x" by simp
  next
    assume "79 < ?x"
    then have "?x = 80"
      using exactWeightedSum_top [of app] by (simp add: exactWeightedSum_def)
    then show "Math_round ?x = 80" by (simp add: Math_round_def floor_eq_iff)
  qed
  have lvl: "analysis_riskLevel (analyzeAppRisk app) = RiskLevel.CRITICAL \<longleftrightarrow>
      analysis_riskScore (analyzeAppRisk app) = 80"
    unfolding analyzeAppRisk_riskLevel sc using r80 by (auto simp: calculateRiskLevel_def)
  show ?thesis
    using sc r80 b lvl top exactWeightedSum_top [of app] by (simp add: w)
qed

theorem analyzeAppRisk_score_at_most_80_witness:
  "analysis_riskScore (analyzeAppRisk
     \<lparr>appId = ''app_789'', appName = ''Custom Analytics Dashboard'', developer = None,
      permissions = Some \<lparr>scopes = [''read_all_orders'', ''read_customers'', ''write_orders'',
                                    ''write_script_tags'']\<rparr>,
      dataAccessLevel = FULL_ACCESS, app_riskLevel = RiskLevel.MEDIUM, app_riskScore = 50,
      riskFactors = Some \<lparr>app_dataTypes = Some [''personal_data''],
                          encryptionStatus = ''unknown'', privacyPolicyUrl = None,
                          dataRetentionPeriod = Some ''unknown''\<rparr>,
      complianceIssues = None, lastRiskAssessment = None\<rparr>) = 80 \<and>
   analysis_riskLevel (analyzeAppRisk
     \<lparr>appId = ''app_789'', appName = ''Custom Analytics Dashboard'', developer = None,
      permissions = Some \<lparr>scopes = [''read_all_orders'', ''read_customers'', ''write_orders'',
                                    ''write_script_tags'']\<rparr>,
      dataAccessLevel = FULL_ACCESS, app_riskLevel = RiskLevel.MEDIUM, app_riskScore = 50,
      riskFactors = Some \<lparr>app_dataTypes = Some [''personal_data''],
                          encryptionStatus = ''unknown'', privacyPolicyUrl = None,
                          dataRetentionPeriod = Some ''unknown''\<rparr>,
      complianceIssues = None, lastRiskAssessment = None\<rparr>) = RiskLevel.CRITICAL"
proof -
  let ?app = "\<lparr>appId = ''app_789'', appName = ''Custom Analytics Dashboard'', developer = None,
      permissions = Some \<lparr>scopes = [''read_all_orders'', ''read_customers'', ''write_orders'',
                                    ''write_script_tags'']\<rparr>,
      dataAccessLevel = FULL_ACCESS, app_riskLevel = RiskLevel.MEDIUM, app_riskScore = 50,
      riskFactors = Some \<lparr>app_dataTypes = Some [''personal_data''],
                          encryptionStatus = ''unknown'', privacyPolicyUrl = None,
                          dataRetentionPeriod = Some ''unknown''\<rparr>,
      complianceIssues = None, lastRiskAssessment = None\<rparr>"
  have "part_score (analyzeDataAccessRisk ?app) = 120" by code_simp
  moreover have "part_score (analyzePermissionRisk ?app) = 70" by code_simp
  moreover have "part_score (analyzeComplianceRisk ?app) = 90" by code_simp
  moreover have "part_score (analyzeSecurityRisk ?app) = 30" by code_simp
  moreover have "part_score (analyzeReputationRisk ?app) = 40" by code_simp
  ultimately show ?thesis
    using analyzeAppRisk_score_at_most_80 [of ?app] by simp
qed

text \<open>
  Claim C7. With no applicable rule the gap analysis returns the score 100 and no gap;
  with no app the risk assessment returns the counts 0 and the overall risk score 0
  behind its guard. The risk breakdown has no guard: each of its five components is the
  rounding of \<^verbatim>\<open>0 / 0\<close>, which is \<^verbatim>\<open>NaN\<close>.
\<close>

theorem performRiskAssessment_no_apps:
  "snd (performRiskAssessment now merchantId []) =
     \<lparr>assessment_merchantId = merchantId, totalApps = 0, highRiskApps = 0,
      mediumRiskApps = 0, lowRiskApps = 0, overallRiskScore = 0,
      riskBreakdown =
        \<lparr>rb_dataAccess = NaN, rb_permissions = NaN, rb_compliance = NaN,
         rb_security = NaN, rb_reputation = NaN\<rparr>,
      assessment_recommendations = [], assessment_complianceGaps = []\<rparr> \<and>
   \<not> isWellDefined (rb_dataAccess (riskBreakdown (snd (performRiskAssessment now merchantId [])))) \<and>
   overallComplianceScore (performGapAnalysis now merchantId md []) = 100 \<and>
   gaps (performGapAnalysis now merchantId md []) = []"
  by (simp add: performRiskAssessment_def calculateRiskBreakdown_def breakdownComponent_def
      js_div_def generateRecommendations_def identifyComplianceGaps_def Math_round_zero
      performGapAnalysis_def priorityGaps_def Array_sort_def)


section \<open>The compliance health check\<close>

text \<open>
  Claim C8 puts an audit that is 60 days old into the range of the medium issue. The
  comparison of the source is strict: at exactly 60 days the health check reports no
  issue and the score stays 100.
\<close>

theorem performComplianceHealthCheck_60_days_counterexample:
  "performComplianceHealthCheck ''m1''
     \<lparr>merchantFound = True, lastAuditCreatedAt = Some 1700000000000,
      clock = 1705184000000, pendingDSRs = 0, overdueCount = 0, recentWithdrawals = 0,
      recentBreaches = 0, clockDue = 1705184000000\<rparr> =
   Inr \<lparr>health_merchantId = ''m1'', overallScore = 100, issues = [],
        lastAuditDate = Some 1700000000000, nextAuditDue = 1707776000000\<rparr> \<and>
   daysSinceLastAudit (Some 1700000000000) 1705184000000 = Days 60"
proof -
  have d: "daysSinceLastAudit (Some 1700000000000) 1705184000000 = Days 60"
    by code_simp
  show ?thesis
    by (simp add: performComplianceHealthCheck_def d checkRecentAudit_def
        checkPendingRequests_def checkConsentWithdrawals_def checkRecentBreaches_def)
qed

text \<open>
  Each of the three later checks appends its issues to the list and subtracts its
  deduction from the score that it receives.
\<close>

lemma checkPendingRequests_append:
  "checkPendingRequests p od (iss, sc) =
     (iss @ fst (checkPendingRequests p od ([], 0)),
      sc - (if p > 0 then (if od > 0 then 30 else if p > 5 then 15 else 0) else 0))"
  by (simp add: checkPendingRequests_def)

lemma checkConsentWithdrawals_append:
  "checkConsentWithdrawals wd (iss, sc) =
     (iss @ fst (checkConsentWithdrawals wd ([], 0)), sc - (if wd > 10 then 15 else 0))"
  by (simp add: checkConsentWithdrawals_def)

lemma checkRecentBreaches_append:
  "checkRecentBreaches br (iss, sc) =
     (iss @ fst (checkRecentBreaches br ([], 0)), sc - (if br > 0 then 40 else 0))"
  by (simp add: checkRecentBreaches_def)

lemma later_checks_issue_types:
  "i \<in> set (fst (checkPendingRequests p od ([], 0)) @
            fst (checkConsentWithdrawals wd ([], 0)) @
            fst (checkRecentBreaches br ([], 0))) \<Longrightarrow>
   issue_type i \<noteq> ''audit_overdue'' \<and> issue_type i \<noteq> ''audit_due_soon''"
  by (auto simp: checkPendingRequests_def checkConsentWithdrawals_def checkRecentBreaches_def
      simp del: toString.simps split: if_splits)

lemma checkRecentAudit_start:
  "checkRecentAudit d ([], 100) =
     (case d of
        Infinity \<Rightarrow>
          ([\<lparr>issue_type = ''audit_overdue'', health_severity = AlertSeverity.HIGH,
             health_description = ''Compliance audit is overdue'',
             health_recommendation =
               ''Schedule and complete a compliance audit immediately''\<rparr>], 100 - 20)
      | Days n \<Rightarrow>
          if 90 < n
          then ([\<lparr>issue_type = ''audit_overdue'', health_severity = AlertSeverity.HIGH,
                  health_description = ''Compliance audit is overdue'',
                  health_recommendation =
                    ''Schedule and complete a compliance audit immediately''\<rparr>], 100 - 20)
          else if 60 < n
          then ([\<lparr>issue_type = ''audit_due_soon'', health_severity = AlertSeverity.MEDIUM,
                  health_description = ''Compliance audit due soon'',
                  health_recommendation =
                    ''Schedule a compliance audit within the next 30 days''\<rparr>], 100 - 10)
          else ([], 100))"
  by (cases d) (simp_all add: checkRecentAudit_def)

text \<open>
  Claim C8, amended. For an existing merchant the health check returns a result. Its
  list of issues starts with the issue of the audit check and continues with the issues
  of the other checks, none of which is an audit issue. More than 90 days since the last
  audit give the high issue \<open>audit_overdue\<close> and take 20 from the score; more than 60
  and at most 90 days give the medium issue \<open>audit_due_soon\<close> and take 10; 60 days or
  fewer give no audit issue and take nothing. Without an audit the number of days is
  infinite and the branch of more than 90 days is taken. The final score is 100 minus
  the deductions of the four checks, raised to 0 when negative. The next audit is due
  90 days after the creation of the last audit, or at the current time when there is no
  audit.
\<close>

theorem performComplianceHealthCheck_staleness:
  assumes "merchantFound inp"
  shows "\<exists>r others.
           performComplianceHealthCheck merchantId inp = Inr r \<and>
           issues r =
             (case daysSinceLastAudit (lastAuditCreatedAt inp) (clock inp) of
                Infinity \<Rightarrow>
                  [\<lparr>issue_type = ''audit_overdue'', health_severity = AlertSeverity.HIGH,
                    health_description = ''Compliance audit is overdue'',
                    health_recommendation =
                      ''Schedule and complete a compliance audit immediately''\<rparr>]
              | Days n \<Rightarrow>
                  if 90 < n
                  then [\<lparr>issue_type = ''audit_overdue'', health_severity = AlertSeverity.HIGH,
                         health_description = ''Compliance audit is overdue'',
                         health_recommendation =
                           ''Schedule and complete a compliance audit immediately''\<rparr>]
                  else if 60 < n
                  then [\<lparr>issue_type = ''audit_due_soon'',
                         health_severity = AlertSeverity.MEDIUM,
                         health_description = ''Compliance audit due soon'',
                         health_recommendation =
                           ''Schedule a compliance audit within the next 30 days''\<rparr>]
                  else []) @ others \<and>
           (\<forall>i \<in> set others.
              issue_type i \<noteq> ''audit_overdue'' \<and> issue_type i \<noteq> ''audit_due_soon'') \<and>
           overallScore r =
             max 0 (100 -
               (case daysSinceLastAudit (lastAuditCreatedAt inp) (clock inp) of
                  Infinity \<Rightarrow> 20
                | Days n \<Rightarrow> if 90 < n then 20 else if 60 < n then 10 else 0) -
               (if pendingDSRs inp > 0
                then (if overdueCount inp > 0 then 30
                      else if pendingDSRs inp > 5 then 15 else 0)
                else 0) -
               (if recentWithdrawals inp > 10 then 15 else 0) -
               (if recentBreaches inp > 0 then 40 else 0)) \<and>
           0 \<le> overallScore r \<and>
           overallScore r =
             max 0 (snd (checkRecentBreaches (recentBreaches inp)
               (checkConsentWithdrawals (recentWithdrawals inp)
                 (checkPendingRequests (pendingDSRs inp) (overdueCount inp)
                   (checkRecentAudit
                      (daysSinceLastAudit (lastAuditCreatedAt inp) (clock inp)) ([], 100)))))) \<and>
           nextAuditDue r =
             (case lastAuditCreatedAt inp of
                Some createdAt \<Rightarrow> createdAt + 90 * 24 * 60 * 60 * 1000
              | None \<Rightarrow> clockDue inp) \<and>
           (lastAuditCreatedAt inp = None \<longrightarrow>
              daysSinceLastAudit (lastAuditCreatedAt inp) (clock inp) = Infinity) \<and>
           (\<forall>createdAt. lastAuditCreatedAt inp = Some createdAt \<longrightarrow>
              daysSinceLastAudit (lastAuditCreatedAt inp) (clock inp) =
                Days \<lfloor>fdiv (of_int (clock inp - createdAt)) (1000 * 60 * 60 * 24)\<rfloor>) \<and>
           (\<forall>n iss sc.
              (\<exists>i. checkRecentAudit Infinity (iss, sc) = (iss @ [i], sc - 20) \<and>
                   health_severity i = AlertSeverity.HIGH) \<and>
              (90 < n \<longrightarrow>
                 (\<exists>i. checkRecentAudit (Days n) (iss, sc) = (iss @ [i], sc - 20) \<and>
                      health_severity i = AlertSeverity.HIGH)) \<and>
              (60 < n \<and> n \<le> 90 \<longrightarrow>
                 (\<exists>i. checkRecentAudit (Days n) (iss, sc) = (iss @ [i], sc - 10) \<and>
                      health_severity i = AlertSeverity.MEDIUM)) \<and>
              (n \<le> 60 \<longrightarrow> checkRecentAudit (Days n) (iss, sc) = (iss, sc)))"
proof -
  let ?d = "daysSinceLastAudit (lastAuditCreatedAt inp) (clock inp)"
  let ?others = "fst (checkPendingRequests (pendingDSRs inp) (overdueCount inp) ([], 0)) @
                 fst (checkConsentWithdrawals (recentWithdrawals inp) ([], 0)) @
                 fst (checkRecentBreaches (recentBreaches inp) ([], 0))"
  let ?r = "\<lparr>health_merchantId = merchantId,
             overallScore =
               max 0 (snd (checkRecentBreaches (recentBreaches inp)
                 (checkConsentWithdrawals (recentWithdrawals inp)
                   (checkPendingRequests (pendingDSRs inp) (overdueCount inp)
                     (checkRecentAudit ?d ([], 100)))))),
             issues =
               fst (checkRecentBreaches (recentBreaches inp)
                 (checkConsentWithdrawals (recentWithdrawals inp)
                   (checkPendingRequests (pendingDSRs inp) (overdueCount inp)
                     (checkRecentAudit ?d ([], 100))))),
             lastAuditDate = lastAuditCreatedAt inp,
             nextAuditDue =
               (case lastAuditCreatedAt inp of
                  Some createdAt \<Rightarrow> createdAt + 90 * 24 * 60 * 60 * 1000
                | None \<Rightarrow> clockDue inp)\<rparr>"
  have res: "performComplianceHealthCheck merchantId inp = Inr ?r"
    using assms by (simp add: performComplianceHealthCheck_def Let_def)
  obtain iss1 sc1 where a1: "checkRecentAudit ?d ([], 100) = (iss1, sc1)"
    by (cases "checkRecentAudit ?d ([], 100)") auto
  have chain: "checkRecentBreaches (recentBreaches inp)
                 (checkConsentWithdrawals (recentWithdrawals inp)
                   (checkPendingRequests (pendingDSRs inp) (overdueCount inp) (iss1, sc1))) =
      (iss1 @ ?others,
       sc1 -
         (if pendingDSRs inp > 0
          then (if overdueCount inp > 0 then 30 else if pendingDSRs inp > 5 then 15 else 0)
          else 0) -
         (if recentWithdrawals inp > 10 then 15 else 0) -
         (if recentBreaches inp > 0 then 40 else 0))"
    by (simp only: checkPendingRequests_append [of _ _ iss1 sc1]
        checkConsentWithdrawals_append [of _ "iss1 @ _"] checkRecentBreaches_append [of _ "_ @ _"]
        append_assoc)
  have iss: "issues ?r =
             (case ?d of
                Infinity \<Rightarrow>
                  [\<lparr>issue_type = ''audit_overdue'', health_severity = AlertSeverity.HIGH,
                    health_description = ''Compliance audit is overdue'',
                    health_recommendation =
                      ''Schedule and complete a compliance audit immediately''\<rparr>]
              | Days n \<Rightarrow>
                  if 90 < n
                  then [\<lparr>issue_type = ''audit_overdue'', health_severity = AlertSeverity.HIGH,
                         health_description = ''Compliance audit is overdue'',
                         health_recommendation =
                           ''Schedule and complete a compliance audit immediately''\<rparr>]
                  else if 60 < n
                  then [\<lparr>issue_type = ''audit_due_soon'',
                         health_severity = AlertSeverity.MEDIUM,
                         health_description = ''Compliance audit due soon'',
                         health_recommendation =
                           ''Schedule a compliance audit within the next 30 days''\<rparr>]
                  else []) @ ?others"
    using a1 by (simp add: chain checkRecentAudit_start split: days.splits if_splits)
  have sc: "overallScore ?r =
             max 0 (100 -
               (case ?d of
                  Infinity \<Rightarrow> 20
                | Days n \<Rightarrow> if 90 < n then 20 else if 60 < n then 10 else 0) -
               (if pendingDSRs inp > 0
                then (if overdueCount inp > 0 then 30
                      else if pendingDSRs inp > 5 then 15 else 0)
                else 0) -
               (if recentWithdrawals inp > 10 then 15 else 0) -
               (if recentBreaches inp > 0 then 40 else 0))"
    using a1 by (simp add: chain checkRecentAudit_start split: days.splits if_splits)
  have oth: "\<forall>i \<in> set ?others.
      issue_type i \<noteq> ''audit_overdue'' \<and> issue_type i \<noteq> ''audit_due_soon''"
    using later_checks_issue_types by blast
  have nn: "0 \<le> overallScore ?r" by simp
  have sc': "overallScore ?r =
             max 0 (snd (checkRecentBreaches (recentBreaches inp)
               (checkConsentWithdrawals (recentWithdrawals inp)
                 (checkPendingRequests (pendingDSRs inp) (overdueCount inp)
                   (checkRecentAudit ?d ([], 100))))))"
    by simp
  have due: "nextAuditDue ?r =
             (case lastAuditCreatedAt inp of
                Some createdAt \<Rightarrow> createdAt + 90 * 24 * 60 * 60 * 1000
              | None \<Rightarrow> clockDue inp)"
    by simp
  have none: "lastAuditCreatedAt inp = None \<longrightarrow> ?d = Infinity"
    by (simp add: daysSinceLastAudit_def)
  have some: "\<forall>createdAt. lastAuditCreatedAt inp = Some createdAt \<longrightarrow>
      ?d = Days \<lfloor>fdiv (of_int (clock inp - createdAt)) (1000 * 60 * 60 * 24)\<rfloor>"
    by (simp add: daysSinceLastAudit_def)
  have steps: "\<forall>n iss sc.
              (\<exists>i. checkRecentAudit Infinity (iss, sc) = (iss @ [i], sc - 20) \<and>
                   health_severity i = AlertSeverity.HIGH) \<and>
              (90 < n \<longrightarrow>
                 (\<exists>i. checkRecentAudit (Days n) (iss, sc) = (iss @ [i], sc - 20) \<and>
                      health_severity i = AlertSeverity.HIGH)) \<and>
              (60 < n \<and> n \<le> 90 \<longrightarrow>
                 (\<exists>i. checkRecentAudit (Days n) (iss, sc) = (iss @ [i], sc - 10) \<and>
                      health_severity i = AlertSeverity.MEDIUM)) \<and>
              (n \<le> 60 \<longrightarrow> checkRecentAudit (Days n) (iss, sc) = (iss, sc))"
    by (auto simp: checkRecentAudit_def)
  show ?thesis
    by (rule exI [of _ ?r], rule exI [of _ ?others])
      (intro conjI, rule res, rule iss, rule oth, rule sc, rule nn, rule sc', rule due,
        rule none, rule some, rule steps)
qed

theorem performComplianceHealthCheck_staleness_witness:
  "merchantFound \<lparr>merchantFound = True, lastAuditCreatedAt = None,
      clock = 1705184000000, pendingDSRs = 6, overdueCount = 1, recentWithdrawals = 11,
      recentBreaches = 2, clockDue = 1705184000123\<rparr> \<and>
   (\<exists>r. performComplianceHealthCheck ''m1''
     \<lparr>merchantFound = True, lastAuditCreatedAt = None,
      clock = 1705184000000, pendingDSRs = 6, overdueCount = 1, recentWithdrawals = 11,
      recentBreaches = 2, clockDue = 1705184000123\<rparr> = Inr r \<and>
     overallScore r = 0 \<and> nextAuditDue r = 1705184000123 \<and>
     issue_type (hd (issues r)) = ''audit_overdue'' \<and>
     health_severity (hd (issues r)) = AlertSeverity.HIGH)"
proof -
  have m: "merchantFound \<lparr>merchantFound = True, lastAuditCreatedAt = None,
      clock = 1705184000000, pendingDSRs = 6, overdueCount = 1, recentWithdrawals = 11,
      recentBreaches = 2, clockDue = 1705184000123\<rparr>"
    by simp
  from performComplianceHealthCheck_staleness [OF m, of "''m1''"]
  show ?thesis
    by (auto simp: daysSinceLastAudit_def)
qed

end
